theory Spec2Isabelle
  imports Main
begin

section \<open>Errors of the resource client\<close>

text \<open>
  Go's \<open>error\<close> is modelled as an optional API error: \<open>None\<close> is \<open>nil\<close>.
  \<open>errors.IsNotFound\<close> and \<open>errors.IsAlreadyExists\<close> of
  \<open>k8s.io/apimachinery/pkg/api/errors\<close> test the reason of the error; every other
  failure of the client (transport, conflict, ...) is \<open>Other\<close> with its message.
\<close>

datatype apiError = NotFound | AlreadyExists | Other string

type_synonym error = "apiError option"

definition IsNotFound :: "error \<Rightarrow> bool" where
  "IsNotFound err = (err = Some NotFound)"

definition IsAlreadyExists :: "error \<Rightarrow> bool" where
  "IsAlreadyExists err = (err = Some AlreadyExists)"

section \<open>Resources\<close>

text \<open>
  \<open>metav1.ObjectMeta\<close> as far as the reconcilers read and write it: name, namespace
  and the label map (\<open>map[string]string\<close>; the nil map is the empty map).
\<close>

record ObjectMeta =
  Name :: string
  Namespace :: string
  Labels :: "string \<rightharpoonup> string"

text \<open>
  Modelled from the spec: the package \<open>ktwin/operator/api/dtd/v0\<close> is not among the
  sources. The phase is the enum of section 3 (\<open>Running | Failed | unset/Pending\<close>); the
  unset value is the zero value of the Go type. The compute-service specification
  \<open>Spec.Service\<close> is a pointer that the reconciler only compares with \<open>nil\<close>; its
  content is opaque here.
\<close>

datatype TwinInterfacePhase =
  TwinInterfacePhaseUnset | TwinInterfacePhasePending
  | TwinInterfacePhaseRunning | TwinInterfacePhaseFailed

datatype TwinInstancePhase =
  TwinInstancePhaseUnset | TwinInstancePhasePending
  | TwinInstancePhaseRunning | TwinInstancePhaseFailed

type_synonym TwinInterfaceService = string

record TwinInterface = ObjectMeta +
  Service :: "TwinInterfaceService option"
  Status :: TwinInterfacePhase

record TwinInstance = ObjectMeta +
  Interface :: string
  InstanceStatus :: TwinInstancePhase

text \<open>
  The generated and the looked-up resources (Knative service and trigger, RabbitMQ
  exchange, queue and binding). The reconcilers use their metadata only; one payload
  field each keeps the types apart.
\<close>

record KService = ObjectMeta +
  Template :: string

record Trigger = ObjectMeta +
  Broker :: string

record Exchange = ObjectMeta +
  ExchangeName :: string

record Queue = ObjectMeta +
  QueueName :: string

record Binding = ObjectMeta +
  Source :: string
  Destination :: string
  RoutingKey :: string

definition emptyTwinInterface :: TwinInterface where
  "emptyTwinInterface =
     \<lparr>Name = [], Namespace = [], Labels = Map.empty,
      Service = None, Status = TwinInterfacePhaseUnset\<rparr>"

definition emptyTwinInstance :: TwinInstance where
  "emptyTwinInstance =
     \<lparr>Name = [], Namespace = [], Labels = Map.empty,
      Interface = [], InstanceStatus = TwinInstancePhaseUnset\<rparr>"

section \<open>The resource client\<close>

text \<open>
  Modelled from the spec: \<open>client.Client\<close> of controller-runtime is an external
  collaborator (section 6): \<open>get(namespacedName) -> record | NotFound\<close>,
  \<open>list(namespace, labelSelector) -> [record]\<close>,
  \<open>create(record) -> record | AlreadyExists | error\<close>,
  \<open>update(record) -> record | error\<close>. The cluster holds the stored resources of each
  kind in creation order, the transport faults of the environment (a call that has a
  fault fails with that message and changes nothing; a failed get leaves the object it
  was to fill as it is, a failed list leaves the items empty), and the log of the calls
  made with their responses.
\<close>

datatype kind =
  KindTwinInterface | KindTwinInstance | KindService | KindTrigger
  | KindBinding | KindExchange | KindQueue

datatype call =
  CallGet kind string string
  | CallCreate kind string string
  | CallList kind string "(string \<times> string) list"
  | CallUpdate kind string string

record cluster =
  twinInterfaces :: "TwinInterface list"
  twinInstances :: "TwinInstance list"
  kservices :: "KService list"
  triggers :: "Trigger list"
  bindings :: "Binding list"
  exchanges :: "Exchange list"
  queues :: "Queue list"
  faults :: "call \<Rightarrow> string option"
  calls :: "(call \<times> error) list"

definition sameKey :: "string \<Rightarrow> string \<Rightarrow> 'a ObjectMeta_scheme \<Rightarrow> bool" where
  "sameKey ns n x = (Namespace x = ns \<and> Name x = n)"

definition matchingLabels :: "(string \<times> string) list \<Rightarrow> 'a ObjectMeta_scheme \<Rightarrow> bool" where
  "matchingLabels sel x = list_all (\<lambda>kv. Labels x (fst kv) = Some (snd kv)) sel"

fun replaceFirst :: "('a \<Rightarrow> bool) \<Rightarrow> 'a \<Rightarrow> 'a list \<Rightarrow> 'a list" where
  "replaceFirst p y [] = []"
| "replaceFirst p y (x # xs) = (if p x then y # xs else x # replaceFirst p y xs)"

definition createIn ::
  "(call \<Rightarrow> string option) \<Rightarrow> kind \<Rightarrow> 'a ObjectMeta_scheme \<Rightarrow> 'a ObjectMeta_scheme list
    \<Rightarrow> error \<times> 'a ObjectMeta_scheme list" where
  "createIn flt k x xs =
     (case flt (CallCreate k (Namespace x) (Name x)) of
        Some m \<Rightarrow> (Some (Other m), xs)
      | None \<Rightarrow>
          if list_ex (sameKey (Namespace x) (Name x)) xs then (Some AlreadyExists, xs)
          else (None, xs @ [x]))"

definition getIn ::
  "(call \<Rightarrow> string option) \<Rightarrow> kind \<Rightarrow> string \<Rightarrow> string \<Rightarrow> 'a ObjectMeta_scheme
    \<Rightarrow> 'a ObjectMeta_scheme list \<Rightarrow> error \<times> 'a ObjectMeta_scheme" where
  "getIn flt k ns n into xs =
     (case flt (CallGet k ns n) of
        Some m \<Rightarrow> (Some (Other m), into)
      | None \<Rightarrow>
          (case find (sameKey ns n) xs of
             None \<Rightarrow> (Some NotFound, into)
           | Some x \<Rightarrow> (None, x)))"

definition listIn ::
  "(call \<Rightarrow> string option) \<Rightarrow> kind \<Rightarrow> string \<Rightarrow> (string \<times> string) list
    \<Rightarrow> 'a ObjectMeta_scheme list \<Rightarrow> error \<times> 'a ObjectMeta_scheme list" where
  "listIn flt k ns sel xs =
     (case flt (CallList k ns sel) of
        Some m \<Rightarrow> (Some (Other m), [])
      | None \<Rightarrow> (None, filter (\<lambda>x. Namespace x = ns \<and> matchingLabels sel x) xs))"

definition updateIn ::
  "(call \<Rightarrow> string option) \<Rightarrow> kind \<Rightarrow> 'a ObjectMeta_scheme \<Rightarrow> 'a ObjectMeta_scheme list
    \<Rightarrow> error \<times> 'a ObjectMeta_scheme list" where
  "updateIn flt k x xs =
     (case flt (CallUpdate k (Namespace x) (Name x)) of
        Some m \<Rightarrow> (Some (Other m), xs)
      | None \<Rightarrow>
          if list_ex (sameKey (Namespace x) (Name x)) xs
          then (None, replaceFirst (sameKey (Namespace x) (Name x)) x xs)
          else (Some NotFound, xs))"

definition logCall :: "call \<Rightarrow> error \<Rightarrow> cluster \<Rightarrow> cluster" where
  "logCall k err c = c\<lparr>calls := calls c @ [(k, err)]\<rparr>"

definition clientCreateService :: "KService \<Rightarrow> cluster \<Rightarrow> error \<times> cluster" where
  "clientCreateService x c =
     (let r = createIn (faults c) KindService x (kservices c)
      in (fst r, logCall (CallCreate KindService (Namespace x) (Name x)) (fst r)
                   (c\<lparr>kservices := snd r\<rparr>)))"

definition clientCreateTrigger :: "Trigger \<Rightarrow> cluster \<Rightarrow> error \<times> cluster" where
  "clientCreateTrigger x c =
     (let r = createIn (faults c) KindTrigger x (triggers c)
      in (fst r, logCall (CallCreate KindTrigger (Namespace x) (Name x)) (fst r)
                   (c\<lparr>triggers := snd r\<rparr>)))"

definition clientCreateBinding :: "Binding \<Rightarrow> cluster \<Rightarrow> error \<times> cluster" where
  "clientCreateBinding x c =
     (let r = createIn (faults c) KindBinding x (bindings c)
      in (fst r, logCall (CallCreate KindBinding (Namespace x) (Name x)) (fst r)
                   (c\<lparr>bindings := snd r\<rparr>)))"

definition clientGetTrigger ::
  "string \<Rightarrow> string \<Rightarrow> Trigger \<Rightarrow> cluster \<Rightarrow> error \<times> Trigger \<times> cluster" where
  "clientGetTrigger ns n into c =
     (let r = getIn (faults c) KindTrigger ns n into (triggers c)
      in (fst r, snd r, logCall (CallGet KindTrigger ns n) (fst r) c))"

definition clientGetTwinInterface ::
  "string \<Rightarrow> string \<Rightarrow> TwinInterface \<Rightarrow> cluster \<Rightarrow> error \<times> TwinInterface \<times> cluster" where
  "clientGetTwinInterface ns n into c =
     (let r = getIn (faults c) KindTwinInterface ns n into (twinInterfaces c)
      in (fst r, snd r, logCall (CallGet KindTwinInterface ns n) (fst r) c))"

definition clientGetTwinInstance ::
  "string \<Rightarrow> string \<Rightarrow> TwinInstance \<Rightarrow> cluster \<Rightarrow> error \<times> TwinInstance \<times> cluster" where
  "clientGetTwinInstance ns n into c =
     (let r = getIn (faults c) KindTwinInstance ns n into (twinInstances c)
      in (fst r, snd r, logCall (CallGet KindTwinInstance ns n) (fst r) c))"

definition clientListQueues ::
  "string \<Rightarrow> (string \<times> string) list \<Rightarrow> cluster \<Rightarrow> error \<times> Queue list \<times> cluster" where
  "clientListQueues ns sel c =
     (let r = listIn (faults c) KindQueue ns sel (queues c)
      in (fst r, snd r, logCall (CallList KindQueue ns sel) (fst r) c))"

definition clientListExchanges ::
  "string \<Rightarrow> (string \<times> string) list \<Rightarrow> cluster \<Rightarrow> error \<times> Exchange list \<times> cluster" where
  "clientListExchanges ns sel c =
     (let r = listIn (faults c) KindExchange ns sel (exchanges c)
      in (fst r, snd r, logCall (CallList KindExchange ns sel) (fst r) c))"

definition clientUpdateTwinInterface :: "TwinInterface \<Rightarrow> cluster \<Rightarrow> error \<times> cluster" where
  "clientUpdateTwinInterface x c =
     (let r = updateIn (faults c) KindTwinInterface x (twinInterfaces c)
      in (fst r, logCall (CallUpdate KindTwinInterface (Namespace x) (Name x)) (fst r)
                   (c\<lparr>twinInterfaces := snd r\<rparr>)))"

definition clientUpdateTwinInstance :: "TwinInstance \<Rightarrow> cluster \<Rightarrow> error \<times> cluster" where
  "clientUpdateTwinInstance x c =
     (let r = updateIn (faults c) KindTwinInstance x (twinInstances c)
      in (fst r, logCall (CallUpdate KindTwinInstance (Namespace x) (Name x)) (fst r)
                   (c\<lparr>twinInstances := snd r\<rparr>)))"

section \<open>The reconcilers\<close>

text \<open>
  The reconciler structs hold the client and the generators \<open>TwinService\<close>,
  \<open>TwinEvent\<close> and \<open>EventStore\<close>. The packages \<open>ktwin/operator/pkg/service\<close> and
  \<open>ktwin/operator/pkg/event\<close> are not among the sources, so the generator methods the
  reconcilers call are parameters: pure functions of their arguments.
\<close>

record reconciler =
  GetService :: "TwinInterface \<Rightarrow> KService"
  GetTwinInterfaceTrigger :: "TwinInterface \<Rightarrow> Trigger"
  GetRelationshipBrokerBindings ::
    "TwinInterface \<Rightarrow> Trigger \<Rightarrow> Exchange \<Rightarrow> Queue \<Rightarrow> Binding list"
  GetEventStoreBrokerBindings ::
    "TwinInterface \<Rightarrow> Trigger \<Rightarrow> Exchange \<Rightarrow> Queue \<Rightarrow> Binding list"
  GetMQQTDispatcherBindings :: "TwinInstance \<Rightarrow> Binding list"

record Request =
  ReqName :: string
  ReqNamespace :: string

text \<open>
  What a pass leaves behind: the error returned to the caller (the \<open>ctrl.Result\<close> is
  always empty), the object the pass worked on (a pointer in Go, mutated in place), the
  local \<open>resultErrors\<close> at the moment of return, and the cluster.
\<close>

record 'a outcome =
  retErr :: error
  obj :: 'a
  resultErrors :: "error list"
  world :: cluster

text \<open>
  \<open>if err != nil && !errors.IsAlreadyExists(err) { resultErrors = append(resultErrors, err) }\<close>
\<close>

definition appendUnlessAlreadyExists :: "error list \<Rightarrow> error \<Rightarrow> error list" where
  "appendUnlessAlreadyExists errs err =
     (if err \<noteq> None \<and> \<not> IsAlreadyExists err then errs @ [err] else errs)"

text \<open>\<open>for _, binding := range bindings { err = r.Create(ctx, &binding, ...); ... }\<close>\<close>

fun createBindings :: "Binding list \<Rightarrow> error list \<Rightarrow> cluster \<Rightarrow> error list \<times> cluster" where
  "createBindings [] errs c = (errs, c)"
| "createBindings (binding # rest) errs c =
     (let r = clientCreateBinding binding c
      in createBindings rest (appendUnlessAlreadyExists errs (fst r)) (snd r))"

subsection \<open>TwinInterfaceReconciler\<close>

text \<open>
  Lines 142 to 180 of \<open>createUpdateTwinInterface\<close>: the default exchange was found;
  list the queue of the interface and create the bindings. The reads \<open>Items[0]\<close> are in
  range: each of the three lists is read only after its length was found not to be 0.
\<close>

definition queueBlock ::
  "reconciler \<Rightarrow> TwinInterface \<Rightarrow> Trigger \<Rightarrow> Queue list \<Rightarrow> Exchange list \<Rightarrow> error list
    \<Rightarrow> cluster \<Rightarrow> error list \<times> cluster" where
  "queueBlock r twinInterface trigger eventStoreQueuesItems exchangeItems errs c =
     (let (err, queueItems, c) =
            clientListQueues (Namespace twinInterface)
              [(''eventing.knative.dev/broker'', ''ktwin''),
               (''eventing.knative.dev/trigger'', Name twinInterface)] c
      in if length queueItems = 0 then (errs @ [err], c)
         else
           let brokerExchange = exchangeItems ! 0;
               twinInterfaceQueue = queueItems ! 0;
               bs = GetRelationshipBrokerBindings r twinInterface trigger
                      brokerExchange twinInterfaceQueue;
               (errs, c) = createBindings bs errs c;
               eventStoreQueue = eventStoreQueuesItems ! 0;
               bs = GetEventStoreBrokerBindings r twinInterface trigger
                      brokerExchange eventStoreQueue
           in createBindings bs errs c)"

text \<open>
  Lines 123 to 181: the event-store queue was found; list the default exchange.
\<close>

definition exchangeBlock ::
  "reconciler \<Rightarrow> TwinInterface \<Rightarrow> Trigger \<Rightarrow> Queue list \<Rightarrow> error list
    \<Rightarrow> cluster \<Rightarrow> error list \<times> cluster" where
  "exchangeBlock r twinInterface trigger eventStoreQueuesItems errs c =
     (let (err, exchangeItems, c) =
            clientListExchanges (Namespace twinInterface)
              [(''eventing.knative.dev/broker'', ''ktwin'')] c;
          errs = (if err \<noteq> None then errs @ [err] else errs)
      in if length exchangeItems = 0 then (errs @ [err], c)
         else queueBlock r twinInterface trigger eventStoreQueuesItems exchangeItems errs c)"

text \<open>
  Lines 79 to 181, the body of \<open>if twinInterface.Spec.Service != nil\<close>. The first
  component is \<open>Some err\<close> when the block returns from the function (line 120) and
  \<open>None\<close> when control reaches line 184.
\<close>

definition serviceBlock ::
  "reconciler \<Rightarrow> TwinInterface \<Rightarrow> cluster \<Rightarrow> error option \<times> error list \<times> cluster" where
  "serviceBlock r twinInterface c =
     (let kService = GetService r twinInterface;
          (err, c) = clientCreateService kService c;
          errs = appendUnlessAlreadyExists [] err;
          trigger = GetTwinInterfaceTrigger r twinInterface;
          (err, c) = clientCreateTrigger trigger c;
          errs = appendUnlessAlreadyExists errs err;
          (err, trigger, c) = clientGetTrigger (Namespace trigger) (Name trigger) trigger c;
          errs = appendUnlessAlreadyExists errs err;
          (err, eventStoreQueuesItems, c) =
            clientListQueues (Namespace twinInterface)
              [(''eventing.knative.dev/trigger'', ''event-store-trigger'')] c
      in if length eventStoreQueuesItems = 0 then (Some err, errs @ [err], c)
         else
           let (errs, c) = exchangeBlock r twinInterface trigger eventStoreQueuesItems errs c
           in (None, errs, c))"

definition updateTwinInterface :: "TwinInterface \<Rightarrow> cluster \<Rightarrow> error \<times> cluster" where
  "updateTwinInterface twinInterface c =
     (let (err, c) = clientUpdateTwinInterface twinInterface c
      in if err \<noteq> None then (err, c) else (None, c))"

definition createUpdateTwinInterface ::
  "reconciler \<Rightarrow> TwinInterface \<Rightarrow> cluster \<Rightarrow> TwinInterface outcome" where
  "createUpdateTwinInterface r twinInterface c =
     (let twinInterfaceName = Name twinInterface;
          (returned, errs, c) =
            (if Service twinInterface \<noteq> None then serviceBlock r twinInterface c
             else (None, [], c))
      in case returned of
           Some err \<Rightarrow>
             \<lparr>retErr = err, obj = twinInterface, resultErrors = errs, world = c\<rparr>
         | None \<Rightarrow>
             if length errs > 0 then
               \<lparr>retErr = errs ! 0,
                obj = twinInterface\<lparr>Status := TwinInterfacePhaseFailed\<rparr>,
                resultErrors = errs, world = c\<rparr>
             else
               let twinInterface = twinInterface\<lparr>Status := TwinInterfacePhaseRunning\<rparr>;
                   twinInterface =
                     twinInterface\<lparr>Labels := [''ktwin/twin-interface'' \<mapsto> twinInterfaceName]\<rparr>;
                   (err, c) = updateTwinInterface twinInterface c
               in if err \<noteq> None then
                    \<lparr>retErr = None, obj = twinInterface, resultErrors = errs, world = c\<rparr>
                  else
                    \<lparr>retErr = None, obj = twinInterface, resultErrors = errs, world = c\<rparr>)"

definition TwinInterfaceReconcile ::
  "reconciler \<Rightarrow> Request \<Rightarrow> cluster \<Rightarrow> TwinInterface outcome" where
  "TwinInterfaceReconcile r req c =
     (let (err, twinInterface, c) =
            clientGetTwinInterface (ReqNamespace req) (ReqName req) emptyTwinInterface c
      in if err \<noteq> None then
           (if IsNotFound err then
              \<lparr>retErr = None, obj = twinInterface, resultErrors = [], world = c\<rparr>
            else \<lparr>retErr = err, obj = twinInterface, resultErrors = [], world = c\<rparr>)
         else createUpdateTwinInterface r twinInterface c)"

subsection \<open>TwinInstanceReconciler\<close>

definition updateTwinInstance :: "TwinInstance \<Rightarrow> cluster \<Rightarrow> error \<times> cluster" where
  "updateTwinInstance twinInstance c =
     (let (err, c) = clientUpdateTwinInstance twinInstance c
      in if err \<noteq> None then (err, c) else (None, c))"

definition createUpdateTwinInstance ::
  "reconciler \<Rightarrow> TwinInstance \<Rightarrow> TwinInterface \<Rightarrow> cluster \<Rightarrow> TwinInstance outcome" where
  "createUpdateTwinInstance r twinInstance twinInterface c =
     (let twinInterfaceName = Name twinInstance;
          bs = GetMQQTDispatcherBindings r twinInstance;
          (errs, c) = createBindings bs [] c
      in if length errs > 0 then
           \<lparr>retErr = errs ! 0,
            obj = twinInstance\<lparr>InstanceStatus := TwinInstancePhaseFailed\<rparr>,
            resultErrors = errs, world = c\<rparr>
         else
           let twinInstance = twinInstance\<lparr>InstanceStatus := TwinInstancePhaseRunning\<rparr>;
               twinInstance =
                 twinInstance\<lparr>Labels := [''ktwin/twin-interface'' \<mapsto> twinInterfaceName]\<rparr>;
               (err, c) = updateTwinInstance twinInstance c
           in if err \<noteq> None then
                \<lparr>retErr = None, obj = twinInstance, resultErrors = errs, world = c\<rparr>
              else
                \<lparr>retErr = None, obj = twinInstance, resultErrors = errs, world = c\<rparr>)"

definition TwinInstanceReconcile ::
  "reconciler \<Rightarrow> Request \<Rightarrow> cluster \<Rightarrow> TwinInstance outcome" where
  "TwinInstanceReconcile r req c =
     (let (err, twinInstance, c) =
            clientGetTwinInstance (ReqNamespace req) (ReqName req) emptyTwinInstance c
      in if err \<noteq> None then
           (if IsNotFound err then
              \<lparr>retErr = None, obj = twinInstance, resultErrors = [], world = c\<rparr>
            else \<lparr>retErr = err, obj = twinInstance, resultErrors = [], world = c\<rparr>)
         else
           let twinInterfaceName = Interface twinInstance;
               (err, twinInterface, c) =
                 clientGetTwinInterface (Namespace twinInstance) twinInterfaceName
                   emptyTwinInterface c
           in if err \<noteq> None then
                \<lparr>retErr = err, obj = twinInstance, resultErrors = [], world = c\<rparr>
              else createUpdateTwinInstance r twinInstance twinInterface c)"

section \<open>Observing a pass\<close>

text \<open>
  The calls a pass added to the log of the cluster it started from, and the status
  update among them.
\<close>

fun isUpdate :: "call \<Rightarrow> bool" where
  "isUpdate (CallUpdate k ns n) = True"
| "isUpdate _ = False"

definition newCalls :: "cluster \<Rightarrow> cluster \<Rightarrow> (call \<times> error) list" where
  "newCalls c c' = drop (length (calls c)) (calls c')"

text \<open>
  What the three list calls of \<open>createUpdateTwinInterface\<close> (lines 115, 131 and 151)
  answer in a cluster: the error and the items.
\<close>

definition eventStoreQueueList :: "TwinInterface \<Rightarrow> cluster \<Rightarrow> error \<times> Queue list" where
  "eventStoreQueueList twinInterface c =
     listIn (faults c) KindQueue (Namespace twinInterface)
       [(''eventing.knative.dev/trigger'', ''event-store-trigger'')] (queues c)"

definition brokerExchangeList :: "TwinInterface \<Rightarrow> cluster \<Rightarrow> error \<times> Exchange list" where
  "brokerExchangeList twinInterface c =
     listIn (faults c) KindExchange (Namespace twinInterface)
       [(''eventing.knative.dev/broker'', ''ktwin'')] (exchanges c)"

definition interfaceQueueList :: "TwinInterface \<Rightarrow> cluster \<Rightarrow> error \<times> Queue list" where
  "interfaceQueueList twinInterface c =
     listIn (faults c) KindQueue (Namespace twinInterface)
       [(''eventing.knative.dev/broker'', ''ktwin''),
        (''eventing.knative.dev/trigger'', Name twinInterface)] (queues c)"


text \<open>
  Pure summaries of a create loop started on the stored bindings \<open>B\<close>: the errors it
  accumulates (the transport faults of its creates), the bindings it leaves, and the
  calls it logs.
\<close>

definition createFault :: "(call \<Rightarrow> string option) \<Rightarrow> Binding \<Rightarrow> string option" where
  "createFault flt b = flt (CallCreate KindBinding (Namespace b) (Name b))"

fun faultErrors :: "(call \<Rightarrow> string option) \<Rightarrow> Binding list \<Rightarrow> error list" where
  "faultErrors flt [] = []"
| "faultErrors flt (b # bs) =
     (case createFault flt b of
        None \<Rightarrow> faultErrors flt bs
      | Some m \<Rightarrow> Some (Other m) # faultErrors flt bs)"

fun addBindings ::
  "(call \<Rightarrow> string option) \<Rightarrow> Binding list \<Rightarrow> Binding list \<Rightarrow> Binding list" where
  "addBindings flt [] B = B"
| "addBindings flt (b # bs) B = addBindings flt bs (snd (createIn flt KindBinding b B))"

fun bindingCalls ::
  "(call \<Rightarrow> string option) \<Rightarrow> Binding list \<Rightarrow> Binding list \<Rightarrow> (call \<times> error) list" where
  "bindingCalls flt [] B = []"
| "bindingCalls flt (b # bs) B =
     (CallCreate KindBinding (Namespace b) (Name b), fst (createIn flt KindBinding b B))
     # bindingCalls flt bs (snd (createIn flt KindBinding b B))"

text \<open>
  Pure summaries of the body of \<open>if twinInterface.Spec.Service != nil\<close>, as functions
  of the cluster the pass starts from: the answers to the first three calls, the errors
  and the calls of the steps before line 123, the errors and the calls of the list steps
  after it, and the bindings the pass goes on to create.
\<close>

definition createdService :: "reconciler \<Rightarrow> TwinInterface \<Rightarrow> cluster \<Rightarrow> error \<times> KService list" where
  "createdService r twinInterface c =
     createIn (faults c) KindService (GetService r twinInterface) (kservices c)"

definition createdTrigger :: "reconciler \<Rightarrow> TwinInterface \<Rightarrow> cluster \<Rightarrow> error \<times> Trigger list" where
  "createdTrigger r twinInterface c =
     createIn (faults c) KindTrigger (GetTwinInterfaceTrigger r twinInterface) (triggers c)"

definition fetchedTrigger :: "reconciler \<Rightarrow> TwinInterface \<Rightarrow> cluster \<Rightarrow> error \<times> Trigger" where
  "fetchedTrigger r twinInterface c =
     getIn (faults c) KindTrigger
       (Namespace (GetTwinInterfaceTrigger r twinInterface))
       (Name (GetTwinInterfaceTrigger r twinInterface))
       (GetTwinInterfaceTrigger r twinInterface) (snd (createdTrigger r twinInterface c))"

definition setupErrors :: "reconciler \<Rightarrow> TwinInterface \<Rightarrow> cluster \<Rightarrow> error list" where
  "setupErrors r twinInterface c =
     appendUnlessAlreadyExists
       (appendUnlessAlreadyExists
          (appendUnlessAlreadyExists [] (fst (createdService r twinInterface c)))
          (fst (createdTrigger r twinInterface c)))
       (fst (fetchedTrigger r twinInterface c))"

definition setupCalls :: "reconciler \<Rightarrow> TwinInterface \<Rightarrow> cluster \<Rightarrow> (call \<times> error) list" where
  "setupCalls r twinInterface c =
     [(CallCreate KindService (Namespace (GetService r twinInterface))
         (Name (GetService r twinInterface)), fst (createdService r twinInterface c)),
      (CallCreate KindTrigger (Namespace (GetTwinInterfaceTrigger r twinInterface))
         (Name (GetTwinInterfaceTrigger r twinInterface)), fst (createdTrigger r twinInterface c)),
      (CallGet KindTrigger (Namespace (GetTwinInterfaceTrigger r twinInterface))
         (Name (GetTwinInterfaceTrigger r twinInterface)), fst (fetchedTrigger r twinInterface c)),
      (CallList KindQueue (Namespace twinInterface)
         [(''eventing.knative.dev/trigger'', ''event-store-trigger'')],
       fst (eventStoreQueueList twinInterface c))]"

definition listErrors :: "TwinInterface \<Rightarrow> cluster \<Rightarrow> error list" where
  "listErrors twinInterface c =
     (if snd (eventStoreQueueList twinInterface c) = []
      then [fst (eventStoreQueueList twinInterface c)]
      else
        (if fst (brokerExchangeList twinInterface c) \<noteq> None
         then [fst (brokerExchangeList twinInterface c)] else [])
        @ (if snd (brokerExchangeList twinInterface c) = []
           then [fst (brokerExchangeList twinInterface c)]
           else if snd (interfaceQueueList twinInterface c) = []
           then [fst (interfaceQueueList twinInterface c)]
           else []))"

definition listCalls :: "TwinInterface \<Rightarrow> cluster \<Rightarrow> (call \<times> error) list" where
  "listCalls twinInterface c =
     (if snd (eventStoreQueueList twinInterface c) = [] then []
      else
        (CallList KindExchange (Namespace twinInterface)
           [(''eventing.knative.dev/broker'', ''ktwin'')],
         fst (brokerExchangeList twinInterface c))
        # (if snd (brokerExchangeList twinInterface c) = [] then []
           else
             [(CallList KindQueue (Namespace twinInterface)
                 [(''eventing.knative.dev/broker'', ''ktwin''),
                  (''eventing.knative.dev/trigger'', Name twinInterface)],
               fst (interfaceQueueList twinInterface c))]))"

definition bindingsDue :: "reconciler \<Rightarrow> TwinInterface \<Rightarrow> cluster \<Rightarrow> Binding list" where
  "bindingsDue r twinInterface c =
     (if snd (eventStoreQueueList twinInterface c) = []
         \<or> snd (brokerExchangeList twinInterface c) = []
         \<or> snd (interfaceQueueList twinInterface c) = []
      then []
      else
        GetRelationshipBrokerBindings r twinInterface (snd (fetchedTrigger r twinInterface c))
          (snd (brokerExchangeList twinInterface c) ! 0)
          (snd (interfaceQueueList twinInterface c) ! 0)
        @ GetEventStoreBrokerBindings r twinInterface (snd (fetchedTrigger r twinInterface c))
            (snd (brokerExchangeList twinInterface c) ! 0)
            (snd (eventStoreQueueList twinInterface c) ! 0))"

text \<open>
  Pure summaries of a whole pass of \<open>createUpdateTwinInterface\<close>: whether it returns
  at line 120, the errors it has accumulated when it returns, the calls of its create
  sequence, the bindings it tries to create, and the object it sends to the update.
\<close>

definition passReturnsEarly :: "TwinInterface \<Rightarrow> cluster \<Rightarrow> bool" where
  "passReturnsEarly twinInterface c =
     (Service twinInterface \<noteq> None \<and> snd (eventStoreQueueList twinInterface c) = [])"

definition passErrors :: "reconciler \<Rightarrow> TwinInterface \<Rightarrow> cluster \<Rightarrow> error list" where
  "passErrors r twinInterface c =
     (if Service twinInterface = None then []
      else setupErrors r twinInterface c @ listErrors twinInterface c
           @ faultErrors (faults c) (bindingsDue r twinInterface c))"

definition passBindings :: "reconciler \<Rightarrow> TwinInterface \<Rightarrow> cluster \<Rightarrow> Binding list" where
  "passBindings r twinInterface c =
     (if Service twinInterface = None then [] else bindingsDue r twinInterface c)"

definition passCalls :: "reconciler \<Rightarrow> TwinInterface \<Rightarrow> cluster \<Rightarrow> (call \<times> error) list" where
  "passCalls r twinInterface c =
     (if Service twinInterface = None then []
      else setupCalls r twinInterface c @ listCalls twinInterface c
           @ bindingCalls (faults c) (bindingsDue r twinInterface c) (bindings c))"

definition runningInterface :: "TwinInterface \<Rightarrow> TwinInterface" where
  "runningInterface twinInterface =
     twinInterface\<lparr>Status := TwinInterfacePhaseRunning,
                    Labels := [''ktwin/twin-interface'' \<mapsto> Name twinInterface]\<rparr>"

definition runningInstance :: "TwinInstance \<Rightarrow> TwinInstance" where
  "runningInstance twinInstance =
     twinInstance\<lparr>InstanceStatus := TwinInstancePhaseRunning,
                   Labels := [''ktwin/twin-interface'' \<mapsto> Name twinInstance]\<rparr>"

text \<open>The pass of the Interface reconciler run again on the cluster it left.\<close>

definition secondPass :: "reconciler \<Rightarrow> Request \<Rightarrow> cluster \<Rightarrow> TwinInterface outcome" where
  "secondPass r req c = TwinInterfaceReconcile r req (world (TwinInterfaceReconcile r req c))"

text \<open>
  Modelled from the spec: the generators are not among the sources; section 4.1 asks
  that they are deterministic functions of the twin's identity, so that repeated
  reconciliation generates the same artifacts. Here: what they generate for an Interface
  does not depend on the labels and the status phase that a pass writes.
\<close>

definition generatorsIgnoreStatusAndLabels :: "reconciler \<Rightarrow> bool" where
  "generatorsIgnoreStatusAndLabels r =
     (\<forall>ti l s.
        GetService r (ti\<lparr>Labels := l, Status := s\<rparr>) = GetService r ti
        \<and> GetTwinInterfaceTrigger r (ti\<lparr>Labels := l, Status := s\<rparr>)
            = GetTwinInterfaceTrigger r ti
        \<and> GetRelationshipBrokerBindings r (ti\<lparr>Labels := l, Status := s\<rparr>)
            = GetRelationshipBrokerBindings r ti
        \<and> GetEventStoreBrokerBindings r (ti\<lparr>Labels := l, Status := s\<rparr>)
            = GetEventStoreBrokerBindings r ti)"

section \<open>The scenario of the specification\<close>

text \<open>
  Modelled from the spec: the end-to-end scenario of section 8. The Interface
  \<open>temperature-sensor\<close> declares a compute service; its namespace holds the default
  exchange, the queue of the interface and the event-store queue, with the labels of
  section 6. The sample generators make one service and one trigger named after the
  Interface, two relationship bindings, one event-store binding, and one dispatch
  binding per Instance, all named from the identity of the twin.
\<close>

definition specReconciler :: reconciler where
  "specReconciler =
     \<lparr>GetService =
        (\<lambda>ti. \<lparr>Name = Name ti, Namespace = Namespace ti, Labels = Map.empty,
               Template = (case Service ti of None \<Rightarrow> [] | Some spec \<Rightarrow> spec)\<rparr>),
      GetTwinInterfaceTrigger =
        (\<lambda>ti. \<lparr>Name = Name ti, Namespace = Namespace ti, Labels = Map.empty,
               Broker = ''ktwin''\<rparr>),
      GetRelationshipBrokerBindings =
        (\<lambda>ti tr ex q.
           [\<lparr>Name = Name ti @ ''-real'', Namespace = Namespace ti, Labels = Map.empty,
             Source = Name ex, Destination = Name q, RoutingKey = Name ti @ ''.real''\<rparr>,
            \<lparr>Name = Name ti @ ''-virtual'', Namespace = Namespace ti, Labels = Map.empty,
             Source = Name ex, Destination = Name q, RoutingKey = Name ti @ ''.virtual''\<rparr>]),
      GetEventStoreBrokerBindings =
        (\<lambda>ti tr ex q.
           [\<lparr>Name = Name ti @ ''-event-store'', Namespace = Namespace ti, Labels = Map.empty,
             Source = Name ex, Destination = Name q, RoutingKey = Name ti @ ''.store''\<rparr>]),
      GetMQQTDispatcherBindings =
        (\<lambda>inst.
           [\<lparr>Name = Name inst @ ''-mqtt-dispatcher'', Namespace = Namespace inst,
             Labels = Map.empty, Source = ''amq.topic'', Destination = ''mqtt-dispatcher'',
             RoutingKey = Name inst\<rparr>])\<rparr>"

definition sensor :: TwinInterface where
  "sensor =
     \<lparr>Name = ''temperature-sensor'', Namespace = ''ktwin'', Labels = [''team'' \<mapsto> ''lab''],
      Service = Some ''sensor-image'', Status = TwinInterfacePhaseUnset\<rparr>"

definition sensorInstance :: TwinInstance where
  "sensorInstance =
     \<lparr>Name = ''sensor-001'', Namespace = ''ktwin'', Labels = [''team'' \<mapsto> ''lab''],
      Interface = ''temperature-sensor'', InstanceStatus = TwinInstancePhaseUnset\<rparr>"

definition orphanInstance :: TwinInstance where
  "orphanInstance =
     \<lparr>Name = ''orphan-001'', Namespace = ''ktwin'', Labels = [''team'' \<mapsto> ''lab''],
      Interface = ''humidity-sensor'', InstanceStatus = TwinInstancePhaseUnset\<rparr>"

definition defaultExchange :: Exchange where
  "defaultExchange =
     \<lparr>Name = ''ktwin-exchange'', Namespace = ''ktwin'',
      Labels = [''eventing.knative.dev/broker'' \<mapsto> ''ktwin''], ExchangeName = ''b.ktwin''\<rparr>"

definition sensorQueue :: Queue where
  "sensorQueue =
     \<lparr>Name = ''sensor-queue'', Namespace = ''ktwin'',
      Labels = [''eventing.knative.dev/broker'' \<mapsto> ''ktwin'',
                ''eventing.knative.dev/trigger'' \<mapsto> ''temperature-sensor''],
      QueueName = ''t.sensor''\<rparr>"

definition storeQueue :: Queue where
  "storeQueue =
     \<lparr>Name = ''store-queue'', Namespace = ''ktwin'',
      Labels = [''eventing.knative.dev/trigger'' \<mapsto> ''event-store-trigger''],
      QueueName = ''t.store''\<rparr>"

definition noFaults :: "call \<Rightarrow> string option" where
  "noFaults = (\<lambda>k. None)"

definition faultAt :: "call \<Rightarrow> string \<Rightarrow> call \<Rightarrow> string option" where
  "faultAt k m = (\<lambda>k'. if k' = k then Some m else None)"

definition baseCluster :: cluster where
  "baseCluster =
     \<lparr>twinInterfaces = [sensor], twinInstances = [sensorInstance, orphanInstance],
      kservices = [], triggers = [], bindings = [],
      exchanges = [defaultExchange], queues = [sensorQueue, storeQueue],
      faults = noFaults, calls = []\<rparr>"

definition sensorReq :: Request where
  "sensorReq = \<lparr>ReqName = ''temperature-sensor'', ReqNamespace = ''ktwin''\<rparr>"

definition instanceReq :: Request where
  "instanceReq = \<lparr>ReqName = ''sensor-001'', ReqNamespace = ''ktwin''\<rparr>"

definition orphanReq :: Request where
  "orphanReq = \<lparr>ReqName = ''orphan-001'', ReqNamespace = ''ktwin''\<rparr>"

text \<open>Variants of the scenario: missing infrastructure and transport faults.\<close>

definition plainSensor :: TwinInterface where
  "plainSensor = sensor\<lparr>Service := None\<rparr>"

definition plainCluster :: cluster where
  "plainCluster = baseCluster\<lparr>twinInterfaces := [plainSensor]\<rparr>"

definition noStoreQueueCluster :: cluster where
  "noStoreQueueCluster = baseCluster\<lparr>queues := [sensorQueue]\<rparr>"

definition noExchangeCluster :: cluster where
  "noExchangeCluster = baseCluster\<lparr>exchanges := []\<rparr>"

definition noInterfaceQueueCluster :: cluster where
  "noInterfaceQueueCluster = baseCluster\<lparr>queues := [storeQueue]\<rparr>"

definition noInfrastructureCluster :: cluster where
  "noInfrastructureCluster = baseCluster\<lparr>exchanges := [], queues := [sensorQueue]\<rparr>"

definition serviceFault :: "call \<Rightarrow> string option" where
  "serviceFault =
     faultAt (CallCreate KindService ''ktwin'' ''temperature-sensor'') ''connection refused''"

definition serviceFaultCluster :: cluster where
  "serviceFaultCluster = baseCluster\<lparr>faults := serviceFault\<rparr>"

definition serviceFaultNoExchangeCluster :: cluster where
  "serviceFaultNoExchangeCluster = baseCluster\<lparr>exchanges := [], faults := serviceFault\<rparr>"

definition updateConflict :: "call \<Rightarrow> string option" where
  "updateConflict = (\<lambda>k. if isUpdate k then Some ''conflict'' else None)"

definition updateConflictCluster :: cluster where
  "updateConflictCluster = plainCluster\<lparr>faults := updateConflict\<rparr>"

definition dispatcherExistsCluster :: cluster where
  "dispatcherExistsCluster =
     baseCluster\<lparr>bindings := GetMQQTDispatcherBindings specReconciler sensorInstance\<rparr>"

section \<open>Unfolding the scenario\<close>

lemmas scenario_defs =
  specReconciler_def sensor_def sensorInstance_def orphanInstance_def defaultExchange_def
  sensorQueue_def storeQueue_def noFaults_def faultAt_def baseCluster_def sensorReq_def
  instanceReq_def orphanReq_def plainSensor_def plainCluster_def noStoreQueueCluster_def
  noExchangeCluster_def noInterfaceQueueCluster_def noInfrastructureCluster_def
  serviceFault_def serviceFaultCluster_def serviceFaultNoExchangeCluster_def
  updateConflict_def updateConflictCluster_def

lemmas store_defs =
  createIn_def getIn_def listIn_def updateIn_def sameKey_def matchingLabels_def

lemmas summary_defs =
  createdService_def createdTrigger_def fetchedTrigger_def setupErrors_def setupCalls_def
  listErrors_def listCalls_def bindingsDue_def eventStoreQueueList_def brokerExchangeList_def
  interfaceQueueList_def

section \<open>The model, summarised\<close>

subsection \<open>The client calls, field by field\<close>

lemma clientCreateService_fields [simp]:
  "fst (clientCreateService x c) = fst (createIn (faults c) KindService x (kservices c))"
  "kservices (snd (clientCreateService x c)) = snd (createIn (faults c) KindService x (kservices c))"
  "calls (snd (clientCreateService x c)) =
     calls c @ [(CallCreate KindService (Namespace x) (Name x),
                 fst (createIn (faults c) KindService x (kservices c)))]"
  "faults (snd (clientCreateService x c)) = faults c"
  "triggers (snd (clientCreateService x c)) = triggers c"
  "bindings (snd (clientCreateService x c)) = bindings c"
  "exchanges (snd (clientCreateService x c)) = exchanges c"
  "queues (snd (clientCreateService x c)) = queues c"
  "twinInterfaces (snd (clientCreateService x c)) = twinInterfaces c"
  "twinInstances (snd (clientCreateService x c)) = twinInstances c"
  by (simp_all add: clientCreateService_def logCall_def Let_def)

lemma clientCreateTrigger_fields [simp]:
  "fst (clientCreateTrigger x c) = fst (createIn (faults c) KindTrigger x (triggers c))"
  "triggers (snd (clientCreateTrigger x c)) = snd (createIn (faults c) KindTrigger x (triggers c))"
  "calls (snd (clientCreateTrigger x c)) =
     calls c @ [(CallCreate KindTrigger (Namespace x) (Name x),
                 fst (createIn (faults c) KindTrigger x (triggers c)))]"
  "faults (snd (clientCreateTrigger x c)) = faults c"
  "kservices (snd (clientCreateTrigger x c)) = kservices c"
  "bindings (snd (clientCreateTrigger x c)) = bindings c"
  "exchanges (snd (clientCreateTrigger x c)) = exchanges c"
  "queues (snd (clientCreateTrigger x c)) = queues c"
  "twinInterfaces (snd (clientCreateTrigger x c)) = twinInterfaces c"
  "twinInstances (snd (clientCreateTrigger x c)) = twinInstances c"
  by (simp_all add: clientCreateTrigger_def logCall_def Let_def)

lemma clientCreateBinding_fields [simp]:
  "fst (clientCreateBinding x c) = fst (createIn (faults c) KindBinding x (bindings c))"
  "bindings (snd (clientCreateBinding x c)) = snd (createIn (faults c) KindBinding x (bindings c))"
  "calls (snd (clientCreateBinding x c)) =
     calls c @ [(CallCreate KindBinding (Namespace x) (Name x),
                 fst (createIn (faults c) KindBinding x (bindings c)))]"
  "faults (snd (clientCreateBinding x c)) = faults c"
  "kservices (snd (clientCreateBinding x c)) = kservices c"
  "triggers (snd (clientCreateBinding x c)) = triggers c"
  "exchanges (snd (clientCreateBinding x c)) = exchanges c"
  "queues (snd (clientCreateBinding x c)) = queues c"
  "twinInterfaces (snd (clientCreateBinding x c)) = twinInterfaces c"
  "twinInstances (snd (clientCreateBinding x c)) = twinInstances c"
  by (simp_all add: clientCreateBinding_def logCall_def Let_def)

lemma clientGetTrigger_fields [simp]:
  "fst (clientGetTrigger ns n t c) = fst (getIn (faults c) KindTrigger ns n t (triggers c))"
  "fst (snd (clientGetTrigger ns n t c)) = snd (getIn (faults c) KindTrigger ns n t (triggers c))"
  "calls (snd (snd (clientGetTrigger ns n t c))) =
     calls c @ [(CallGet KindTrigger ns n, fst (getIn (faults c) KindTrigger ns n t (triggers c)))]"
  "faults (snd (snd (clientGetTrigger ns n t c))) = faults c"
  "kservices (snd (snd (clientGetTrigger ns n t c))) = kservices c"
  "triggers (snd (snd (clientGetTrigger ns n t c))) = triggers c"
  "bindings (snd (snd (clientGetTrigger ns n t c))) = bindings c"
  "exchanges (snd (snd (clientGetTrigger ns n t c))) = exchanges c"
  "queues (snd (snd (clientGetTrigger ns n t c))) = queues c"
  "twinInterfaces (snd (snd (clientGetTrigger ns n t c))) = twinInterfaces c"
  "twinInstances (snd (snd (clientGetTrigger ns n t c))) = twinInstances c"
  by (simp_all add: clientGetTrigger_def logCall_def Let_def)

lemma clientGetTwinInterface_fields [simp]:
  "fst (clientGetTwinInterface ns n t c) =
     fst (getIn (faults c) KindTwinInterface ns n t (twinInterfaces c))"
  "fst (snd (clientGetTwinInterface ns n t c)) =
     snd (getIn (faults c) KindTwinInterface ns n t (twinInterfaces c))"
  "calls (snd (snd (clientGetTwinInterface ns n t c))) =
     calls c @ [(CallGet KindTwinInterface ns n,
                 fst (getIn (faults c) KindTwinInterface ns n t (twinInterfaces c)))]"
  "faults (snd (snd (clientGetTwinInterface ns n t c))) = faults c"
  "kservices (snd (snd (clientGetTwinInterface ns n t c))) = kservices c"
  "triggers (snd (snd (clientGetTwinInterface ns n t c))) = triggers c"
  "bindings (snd (snd (clientGetTwinInterface ns n t c))) = bindings c"
  "exchanges (snd (snd (clientGetTwinInterface ns n t c))) = exchanges c"
  "queues (snd (snd (clientGetTwinInterface ns n t c))) = queues c"
  "twinInterfaces (snd (snd (clientGetTwinInterface ns n t c))) = twinInterfaces c"
  "twinInstances (snd (snd (clientGetTwinInterface ns n t c))) = twinInstances c"
  by (simp_all add: clientGetTwinInterface_def logCall_def Let_def)

lemma clientGetTwinInstance_fields [simp]:
  "fst (clientGetTwinInstance ns n t c) =
     fst (getIn (faults c) KindTwinInstance ns n t (twinInstances c))"
  "fst (snd (clientGetTwinInstance ns n t c)) =
     snd (getIn (faults c) KindTwinInstance ns n t (twinInstances c))"
  "calls (snd (snd (clientGetTwinInstance ns n t c))) =
     calls c @ [(CallGet KindTwinInstance ns n,
                 fst (getIn (faults c) KindTwinInstance ns n t (twinInstances c)))]"
  "faults (snd (snd (clientGetTwinInstance ns n t c))) = faults c"
  "kservices (snd (snd (clientGetTwinInstance ns n t c))) = kservices c"
  "triggers (snd (snd (clientGetTwinInstance ns n t c))) = triggers c"
  "bindings (snd (snd (clientGetTwinInstance ns n t c))) = bindings c"
  "exchanges (snd (snd (clientGetTwinInstance ns n t c))) = exchanges c"
  "queues (snd (snd (clientGetTwinInstance ns n t c))) = queues c"
  "twinInterfaces (snd (snd (clientGetTwinInstance ns n t c))) = twinInterfaces c"
  "twinInstances (snd (snd (clientGetTwinInstance ns n t c))) = twinInstances c"
  by (simp_all add: clientGetTwinInstance_def logCall_def Let_def)

lemma clientListQueues_fields [simp]:
  "fst (clientListQueues ns sel c) = fst (listIn (faults c) KindQueue ns sel (queues c))"
  "fst (snd (clientListQueues ns sel c)) = snd (listIn (faults c) KindQueue ns sel (queues c))"
  "calls (snd (snd (clientListQueues ns sel c))) =
     calls c @ [(CallList KindQueue ns sel, fst (listIn (faults c) KindQueue ns sel (queues c)))]"
  "faults (snd (snd (clientListQueues ns sel c))) = faults c"
  "kservices (snd (snd (clientListQueues ns sel c))) = kservices c"
  "triggers (snd (snd (clientListQueues ns sel c))) = triggers c"
  "bindings (snd (snd (clientListQueues ns sel c))) = bindings c"
  "exchanges (snd (snd (clientListQueues ns sel c))) = exchanges c"
  "queues (snd (snd (clientListQueues ns sel c))) = queues c"
  "twinInterfaces (snd (snd (clientListQueues ns sel c))) = twinInterfaces c"
  "twinInstances (snd (snd (clientListQueues ns sel c))) = twinInstances c"
  by (simp_all add: clientListQueues_def logCall_def Let_def)

lemma clientListExchanges_fields [simp]:
  "fst (clientListExchanges ns sel c) = fst (listIn (faults c) KindExchange ns sel (exchanges c))"
  "fst (snd (clientListExchanges ns sel c)) =
     snd (listIn (faults c) KindExchange ns sel (exchanges c))"
  "calls (snd (snd (clientListExchanges ns sel c))) =
     calls c @ [(CallList KindExchange ns sel,
                 fst (listIn (faults c) KindExchange ns sel (exchanges c)))]"
  "faults (snd (snd (clientListExchanges ns sel c))) = faults c"
  "kservices (snd (snd (clientListExchanges ns sel c))) = kservices c"
  "triggers (snd (snd (clientListExchanges ns sel c))) = triggers c"
  "bindings (snd (snd (clientListExchanges ns sel c))) = bindings c"
  "exchanges (snd (snd (clientListExchanges ns sel c))) = exchanges c"
  "queues (snd (snd (clientListExchanges ns sel c))) = queues c"
  "twinInterfaces (snd (snd (clientListExchanges ns sel c))) = twinInterfaces c"
  "twinInstances (snd (snd (clientListExchanges ns sel c))) = twinInstances c"
  by (simp_all add: clientListExchanges_def logCall_def Let_def)

lemma clientUpdateTwinInterface_fields [simp]:
  "fst (clientUpdateTwinInterface x c) =
     fst (updateIn (faults c) KindTwinInterface x (twinInterfaces c))"
  "twinInterfaces (snd (clientUpdateTwinInterface x c)) =
     snd (updateIn (faults c) KindTwinInterface x (twinInterfaces c))"
  "calls (snd (clientUpdateTwinInterface x c)) =
     calls c @ [(CallUpdate KindTwinInterface (Namespace x) (Name x),
                 fst (updateIn (faults c) KindTwinInterface x (twinInterfaces c)))]"
  "faults (snd (clientUpdateTwinInterface x c)) = faults c"
  "kservices (snd (clientUpdateTwinInterface x c)) = kservices c"
  "triggers (snd (clientUpdateTwinInterface x c)) = triggers c"
  "bindings (snd (clientUpdateTwinInterface x c)) = bindings c"
  "exchanges (snd (clientUpdateTwinInterface x c)) = exchanges c"
  "queues (snd (clientUpdateTwinInterface x c)) = queues c"
  "twinInstances (snd (clientUpdateTwinInterface x c)) = twinInstances c"
  by (simp_all add: clientUpdateTwinInterface_def logCall_def Let_def)

lemma clientUpdateTwinInstance_fields [simp]:
  "fst (clientUpdateTwinInstance x c) =
     fst (updateIn (faults c) KindTwinInstance x (twinInstances c))"
  "twinInstances (snd (clientUpdateTwinInstance x c)) =
     snd (updateIn (faults c) KindTwinInstance x (twinInstances c))"
  "calls (snd (clientUpdateTwinInstance x c)) =
     calls c @ [(CallUpdate KindTwinInstance (Namespace x) (Name x),
                 fst (updateIn (faults c) KindTwinInstance x (twinInstances c)))]"
  "faults (snd (clientUpdateTwinInstance x c)) = faults c"
  "kservices (snd (clientUpdateTwinInstance x c)) = kservices c"
  "triggers (snd (clientUpdateTwinInstance x c)) = triggers c"
  "bindings (snd (clientUpdateTwinInstance x c)) = bindings c"
  "exchanges (snd (clientUpdateTwinInstance x c)) = exchanges c"
  "queues (snd (clientUpdateTwinInstance x c)) = queues c"
  "twinInterfaces (snd (clientUpdateTwinInstance x c)) = twinInterfaces c"
  by (simp_all add: clientUpdateTwinInstance_def logCall_def Let_def)

lemma updateTwinInterface_eq [simp]:
  "updateTwinInterface x c = clientUpdateTwinInterface x c"
  by (cases "clientUpdateTwinInterface x c") (auto simp: updateTwinInterface_def)

lemma updateTwinInstance_eq [simp]:
  "updateTwinInstance x c = clientUpdateTwinInstance x c"
  by (cases "clientUpdateTwinInstance x c") (auto simp: updateTwinInstance_def)

subsection \<open>The create loop\<close>

lemma createIn_fault_error:
  "appendUnlessAlreadyExists errs (fst (createIn flt KindBinding b B)) =
     errs @ (case createFault flt b of None \<Rightarrow> [] | Some m \<Rightarrow> [Some (Other m)])"
  by (simp add: createIn_def createFault_def appendUnlessAlreadyExists_def IsAlreadyExists_def
      split: option.splits)

lemma createBindings_summary:
  "fst (createBindings bs errs c) = errs @ faultErrors (faults c) bs
   \<and> bindings (snd (createBindings bs errs c)) = addBindings (faults c) bs (bindings c)
   \<and> calls (snd (createBindings bs errs c)) = calls c @ bindingCalls (faults c) bs (bindings c)
   \<and> faults (snd (createBindings bs errs c)) = faults c
   \<and> kservices (snd (createBindings bs errs c)) = kservices c
   \<and> triggers (snd (createBindings bs errs c)) = triggers c
   \<and> exchanges (snd (createBindings bs errs c)) = exchanges c
   \<and> queues (snd (createBindings bs errs c)) = queues c
   \<and> twinInterfaces (snd (createBindings bs errs c)) = twinInterfaces c
   \<and> twinInstances (snd (createBindings bs errs c)) = twinInstances c"
proof (induction bs arbitrary: errs c)
  case Nil
  show ?case by simp
next
  case (Cons b bs)
  show ?case
    using Cons.IH [of "appendUnlessAlreadyExists errs (fst (clientCreateBinding b c))"
                      "snd (clientCreateBinding b c)"]
    by (simp add: Let_def createIn_fault_error split: option.splits)
qed

lemmas createBindings_fields [simp] =
  createBindings_summary [THEN conjunct1]
  createBindings_summary [THEN conjunct2, THEN conjunct1]
  createBindings_summary [THEN conjunct2, THEN conjunct2, THEN conjunct1]
  createBindings_summary [THEN conjunct2, THEN conjunct2, THEN conjunct2, THEN conjunct1]
  createBindings_summary [THEN conjunct2, THEN conjunct2, THEN conjunct2, THEN conjunct2, THEN conjunct1]
  createBindings_summary [THEN conjunct2, THEN conjunct2, THEN conjunct2, THEN conjunct2, THEN conjunct2, THEN conjunct1]
  createBindings_summary [THEN conjunct2, THEN conjunct2, THEN conjunct2, THEN conjunct2, THEN conjunct2, THEN conjunct2, THEN conjunct1]
  createBindings_summary [THEN conjunct2, THEN conjunct2, THEN conjunct2, THEN conjunct2, THEN conjunct2, THEN conjunct2, THEN conjunct2, THEN conjunct1]
  createBindings_summary [THEN conjunct2, THEN conjunct2, THEN conjunct2, THEN conjunct2, THEN conjunct2, THEN conjunct2, THEN conjunct2, THEN conjunct2, THEN conjunct1]
  createBindings_summary [THEN conjunct2, THEN conjunct2, THEN conjunct2, THEN conjunct2, THEN conjunct2, THEN conjunct2, THEN conjunct2, THEN conjunct2, THEN conjunct2]

lemma faultErrors_append [simp]:
  "faultErrors flt (as @ bs) = faultErrors flt as @ faultErrors flt bs"
  by (induction as) (auto split: option.splits)

lemma addBindings_append [simp]:
  "addBindings flt (as @ bs) B = addBindings flt bs (addBindings flt as B)"
  by (induction as arbitrary: B) auto

lemma bindingCalls_append [simp]:
  "bindingCalls flt (as @ bs) B =
     bindingCalls flt as B @ bindingCalls flt bs (addBindings flt as B)"
  by (induction as arbitrary: B) auto

lemma bindingCalls_no_update: "list_all (\<lambda>p. \<not> isUpdate (fst p)) (bindingCalls flt bs B)"
  by (induction bs arbitrary: B) auto

subsection \<open>The body of the service branch\<close>

lemma serviceBlock_summary:
  "fst (serviceBlock r ti c) =
     (if snd (eventStoreQueueList ti c) = [] then Some (fst (eventStoreQueueList ti c)) else None)
   \<and> fst (snd (serviceBlock r ti c)) =
       setupErrors r ti c @ listErrors ti c @ faultErrors (faults c) (bindingsDue r ti c)
   \<and> calls (snd (snd (serviceBlock r ti c))) =
       calls c @ setupCalls r ti c @ listCalls ti c
       @ bindingCalls (faults c) (bindingsDue r ti c) (bindings c)
   \<and> bindings (snd (snd (serviceBlock r ti c))) =
       addBindings (faults c) (bindingsDue r ti c) (bindings c)
   \<and> kservices (snd (snd (serviceBlock r ti c))) = snd (createdService r ti c)
   \<and> triggers (snd (snd (serviceBlock r ti c))) = snd (createdTrigger r ti c)
   \<and> faults (snd (snd (serviceBlock r ti c))) = faults c
   \<and> exchanges (snd (snd (serviceBlock r ti c))) = exchanges c
   \<and> queues (snd (snd (serviceBlock r ti c))) = queues c
   \<and> twinInterfaces (snd (snd (serviceBlock r ti c))) = twinInterfaces c
   \<and> twinInstances (snd (snd (serviceBlock r ti c))) = twinInstances c"
  unfolding serviceBlock_def exchangeBlock_def queueBlock_def summary_defs
  by (simp add: Let_def case_prod_beta)

lemmas serviceBlock_fields [simp] =
  serviceBlock_summary [THEN conjunct1]
  serviceBlock_summary [THEN conjunct2, THEN conjunct1]
  serviceBlock_summary [THEN conjunct2, THEN conjunct2, THEN conjunct1]
  serviceBlock_summary [THEN conjunct2, THEN conjunct2, THEN conjunct2, THEN conjunct1]
  serviceBlock_summary [THEN conjunct2, THEN conjunct2, THEN conjunct2, THEN conjunct2, THEN conjunct1]
  serviceBlock_summary [THEN conjunct2, THEN conjunct2, THEN conjunct2, THEN conjunct2, THEN conjunct2, THEN conjunct1]
  serviceBlock_summary [THEN conjunct2, THEN conjunct2, THEN conjunct2, THEN conjunct2, THEN conjunct2, THEN conjunct2, THEN conjunct1]
  serviceBlock_summary [THEN conjunct2, THEN conjunct2, THEN conjunct2, THEN conjunct2, THEN conjunct2, THEN conjunct2, THEN conjunct2, THEN conjunct1]
  serviceBlock_summary [THEN conjunct2, THEN conjunct2, THEN conjunct2, THEN conjunct2, THEN conjunct2, THEN conjunct2, THEN conjunct2, THEN conjunct2, THEN conjunct1]
  serviceBlock_summary [THEN conjunct2, THEN conjunct2, THEN conjunct2, THEN conjunct2, THEN conjunct2, THEN conjunct2, THEN conjunct2, THEN conjunct2, THEN conjunct2, THEN conjunct1]
  serviceBlock_summary [THEN conjunct2, THEN conjunct2, THEN conjunct2, THEN conjunct2, THEN conjunct2, THEN conjunct2, THEN conjunct2, THEN conjunct2, THEN conjunct2, THEN conjunct2]

lemma listErrors_early:
  "snd (eventStoreQueueList ti c) = [] \<Longrightarrow> listErrors ti c = [fst (eventStoreQueueList ti c)]"
  by (simp add: listErrors_def)

lemma createUpdateTwinInterface_early:
  assumes "passReturnsEarly ti c"
  shows "retErr (createUpdateTwinInterface r ti c) = fst (eventStoreQueueList ti c)"
    and "obj (createUpdateTwinInterface r ti c) = ti"
    and "resultErrors (createUpdateTwinInterface r ti c) = passErrors r ti c"
    and "calls (world (createUpdateTwinInterface r ti c)) = calls c @ passCalls r ti c"
    and "twinInterfaces (world (createUpdateTwinInterface r ti c)) = twinInterfaces c"
  using assms
  by (auto simp add: createUpdateTwinInterface_def passReturnsEarly_def passErrors_def
      passCalls_def case_prod_beta Let_def split: option.splits)

lemma createUpdateTwinInterface_failed:
  assumes "\<not> passReturnsEarly ti c" and "passErrors r ti c \<noteq> []"
  shows "retErr (createUpdateTwinInterface r ti c) = passErrors r ti c ! 0"
    and "obj (createUpdateTwinInterface r ti c) = ti\<lparr>Status := TwinInterfacePhaseFailed\<rparr>"
    and "resultErrors (createUpdateTwinInterface r ti c) = passErrors r ti c"
    and "calls (world (createUpdateTwinInterface r ti c)) = calls c @ passCalls r ti c"
    and "twinInterfaces (world (createUpdateTwinInterface r ti c)) = twinInterfaces c"
  using assms
  by (auto simp add: createUpdateTwinInterface_def passReturnsEarly_def passErrors_def
      passCalls_def case_prod_beta Let_def split: option.splits if_splits)

lemma createUpdateTwinInterface_running:
  assumes "passErrors r ti c = []"
  shows "retErr (createUpdateTwinInterface r ti c) = None"
    and "obj (createUpdateTwinInterface r ti c) = runningInterface ti"
    and "resultErrors (createUpdateTwinInterface r ti c) = []"
    and "calls (world (createUpdateTwinInterface r ti c)) =
           calls c @ passCalls r ti c
           @ [(CallUpdate KindTwinInterface (Namespace ti) (Name ti),
               fst (updateIn (faults c) KindTwinInterface (runningInterface ti) (twinInterfaces c)))]"
    and "twinInterfaces (world (createUpdateTwinInterface r ti c)) =
           snd (updateIn (faults c) KindTwinInterface (runningInterface ti) (twinInterfaces c))"
  using assms
  by (auto simp add: createUpdateTwinInterface_def passReturnsEarly_def passErrors_def
      passCalls_def runningInterface_def listErrors_def case_prod_beta Let_def
      split: option.splits if_splits)

lemma createUpdateTwinInterface_frame:
  "bindings (world (createUpdateTwinInterface r ti c)) =
     addBindings (faults c) (passBindings r ti c) (bindings c)"
  "faults (world (createUpdateTwinInterface r ti c)) = faults c"
  "exchanges (world (createUpdateTwinInterface r ti c)) = exchanges c"
  "queues (world (createUpdateTwinInterface r ti c)) = queues c"
  "twinInstances (world (createUpdateTwinInterface r ti c)) = twinInstances c"
  "kservices (world (createUpdateTwinInterface r ti c)) =
     (if Service ti = None then kservices c else snd (createdService r ti c))"
  "triggers (world (createUpdateTwinInterface r ti c)) =
     (if Service ti = None then triggers c else snd (createdTrigger r ti c))"
  by (simp_all add: createUpdateTwinInterface_def passBindings_def case_prod_beta Let_def
      split: option.splits)

subsection \<open>The passes from the request\<close>

lemma logCall_fields [simp]:
  "calls (logCall k e c) = calls c @ [(k, e)]"
  "faults (logCall k e c) = faults c"
  "kservices (logCall k e c) = kservices c"
  "triggers (logCall k e c) = triggers c"
  "bindings (logCall k e c) = bindings c"
  "exchanges (logCall k e c) = exchanges c"
  "queues (logCall k e c) = queues c"
  "twinInterfaces (logCall k e c) = twinInterfaces c"
  "twinInstances (logCall k e c) = twinInstances c"
  by (simp_all add: logCall_def)

lemma TwinInterfaceReconcile_found:
  assumes "getIn (faults c) KindTwinInterface (ReqNamespace req) (ReqName req)
             emptyTwinInterface (twinInterfaces c) = (None, ti)"
  shows "TwinInterfaceReconcile r req c =
           createUpdateTwinInterface r ti
             (logCall (CallGet KindTwinInterface (ReqNamespace req) (ReqName req)) None c)"
  using assms
  by (simp add: TwinInterfaceReconcile_def clientGetTwinInterface_def Let_def)

lemma TwinInterfaceReconcile_absent:
  assumes "fst (getIn (faults c) KindTwinInterface (ReqNamespace req) (ReqName req)
             emptyTwinInterface (twinInterfaces c)) = Some e"
  shows "TwinInterfaceReconcile r req c =
           \<lparr>retErr = (if e = NotFound then None else Some e), obj = emptyTwinInterface,
            resultErrors = [],
            world = logCall (CallGet KindTwinInterface (ReqNamespace req) (ReqName req))
                      (Some e) c\<rparr>"
  using assms
  by (auto simp add: TwinInterfaceReconcile_def clientGetTwinInterface_def Let_def
      IsNotFound_def getIn_def split: option.splits)

subsection \<open>The Instance pass\<close>

lemma createUpdateTwinInstance_failed:
  assumes "faultErrors (faults c) (GetMQQTDispatcherBindings r inst) \<noteq> []"
  shows "retErr (createUpdateTwinInstance r inst ti c) =
           faultErrors (faults c) (GetMQQTDispatcherBindings r inst) ! 0"
    and "obj (createUpdateTwinInstance r inst ti c) =
           inst\<lparr>InstanceStatus := TwinInstancePhaseFailed\<rparr>"
    and "resultErrors (createUpdateTwinInstance r inst ti c) =
           faultErrors (faults c) (GetMQQTDispatcherBindings r inst)"
    and "calls (world (createUpdateTwinInstance r inst ti c)) =
           calls c @ bindingCalls (faults c) (GetMQQTDispatcherBindings r inst) (bindings c)"
    and "twinInstances (world (createUpdateTwinInstance r inst ti c)) = twinInstances c"
  using assms
  by (auto simp add: createUpdateTwinInstance_def case_prod_beta Let_def)

lemma createUpdateTwinInstance_running:
  assumes "faultErrors (faults c) (GetMQQTDispatcherBindings r inst) = []"
  shows "retErr (createUpdateTwinInstance r inst ti c) = None"
    and "obj (createUpdateTwinInstance r inst ti c) = runningInstance inst"
    and "resultErrors (createUpdateTwinInstance r inst ti c) = []"
    and "calls (world (createUpdateTwinInstance r inst ti c)) =
           calls c @ bindingCalls (faults c) (GetMQQTDispatcherBindings r inst) (bindings c)
           @ [(CallUpdate KindTwinInstance (Namespace inst) (Name inst),
               fst (updateIn (faults c) KindTwinInstance (runningInstance inst) (twinInstances c)))]"
    and "twinInstances (world (createUpdateTwinInstance r inst ti c)) =
           snd (updateIn (faults c) KindTwinInstance (runningInstance inst) (twinInstances c))"
  using assms
  by (auto simp add: createUpdateTwinInstance_def runningInstance_def case_prod_beta Let_def)

lemma createUpdateTwinInstance_frame:
  "bindings (world (createUpdateTwinInstance r inst ti c)) =
     addBindings (faults c) (GetMQQTDispatcherBindings r inst) (bindings c)"
  "faults (world (createUpdateTwinInstance r inst ti c)) = faults c"
  "twinInterfaces (world (createUpdateTwinInstance r inst ti c)) = twinInterfaces c"
  by (simp_all add: createUpdateTwinInstance_def case_prod_beta Let_def)

lemma TwinInstanceReconcile_found:
  assumes "getIn (faults c) KindTwinInstance (ReqNamespace req) (ReqName req)
             emptyTwinInstance (twinInstances c) = (None, inst)"
    and "getIn (faults c) KindTwinInterface (Namespace inst) (Interface inst)
             emptyTwinInterface (twinInterfaces c) = (None, ti)"
  shows "TwinInstanceReconcile r req c =
           createUpdateTwinInstance r inst ti
             (logCall (CallGet KindTwinInterface (Namespace inst) (Interface inst)) None
               (logCall (CallGet KindTwinInstance (ReqNamespace req) (ReqName req)) None c))"
  using assms
  by (simp add: TwinInstanceReconcile_def clientGetTwinInstance_def clientGetTwinInterface_def
      Let_def)

lemma TwinInstanceReconcile_absent:
  assumes "fst (getIn (faults c) KindTwinInstance (ReqNamespace req) (ReqName req)
             emptyTwinInstance (twinInstances c)) = Some e"
  shows "TwinInstanceReconcile r req c =
           \<lparr>retErr = (if e = NotFound then None else Some e), obj = emptyTwinInstance,
            resultErrors = [],
            world = logCall (CallGet KindTwinInstance (ReqNamespace req) (ReqName req))
                      (Some e) c\<rparr>"
  using assms
  by (auto simp add: TwinInstanceReconcile_def clientGetTwinInstance_def Let_def
      IsNotFound_def getIn_def split: option.splits)

lemma TwinInstanceReconcile_orphan:
  assumes "getIn (faults c) KindTwinInstance (ReqNamespace req) (ReqName req)
             emptyTwinInstance (twinInstances c) = (None, inst)"
    and "fst (getIn (faults c) KindTwinInterface (Namespace inst) (Interface inst)
             emptyTwinInterface (twinInterfaces c)) = Some e"
  shows "TwinInstanceReconcile r req c =
           \<lparr>retErr = Some e, obj = inst, resultErrors = [],
            world =
              logCall (CallGet KindTwinInterface (Namespace inst) (Interface inst)) (Some e)
                (logCall (CallGet KindTwinInstance (ReqNamespace req) (ReqName req)) None c)\<rparr>"
  using assms
  by (simp add: TwinInstanceReconcile_def clientGetTwinInstance_def clientGetTwinInterface_def
      Let_def)

lemma newCalls_append [simp]: "calls c' = calls c @ l \<Longrightarrow> newCalls c c' = l"
  by (simp add: newCalls_def)

section \<open>The Instance reconciler and its parent Interface\<close>

lemma orphan_lookup:
  "getIn (faults baseCluster) KindTwinInstance (ReqNamespace orphanReq) (ReqName orphanReq)
     emptyTwinInstance (twinInstances baseCluster) = (None, orphanInstance)"
  by (simp add: scenario_defs store_defs)

lemma orphan_parent_lookup:
  "fst (getIn (faults baseCluster) KindTwinInterface (Namespace orphanInstance)
         (Interface orphanInstance) emptyTwinInterface (twinInterfaces baseCluster))
     = Some NotFound"
  by (simp add: scenario_defs store_defs)

text \<open>
  Claim C5. For every Instance whose referenced parent Interface cannot be fetched
  (not-found included), the Instance reconcile returns that error at once: the two get
  calls are the only calls of the pass (no binding is created, no update is sent), and
  the Instance keeps its phase and labels, in the object of the pass and in the cluster.
\<close>

theorem C5_parent_fetch_failure_is_fatal:
  assumes "getIn (faults c) KindTwinInstance (ReqNamespace req) (ReqName req)
             emptyTwinInstance (twinInstances c) = (None, inst)"
    and "fst (getIn (faults c) KindTwinInterface (Namespace inst) (Interface inst)
             emptyTwinInterface (twinInterfaces c)) = Some e"
  shows "retErr (TwinInstanceReconcile r req c) = Some e
    \<and> obj (TwinInstanceReconcile r req c) = inst
    \<and> newCalls c (world (TwinInstanceReconcile r req c)) =
        [(CallGet KindTwinInstance (ReqNamespace req) (ReqName req), None),
         (CallGet KindTwinInterface (Namespace inst) (Interface inst), Some e)]
    \<and> bindings (world (TwinInstanceReconcile r req c)) = bindings c
    \<and> twinInstances (world (TwinInstanceReconcile r req c)) = twinInstances c"
proof -
  let ?seen = "logCall (CallGet KindTwinInstance (ReqNamespace req) (ReqName req)) None c"
  have "TwinInstanceReconcile r req c =
          \<lparr>retErr = Some e, obj = inst, resultErrors = [],
           world = logCall (CallGet KindTwinInterface (Namespace inst) (Interface inst))
                     (Some e) ?seen\<rparr>"
    by (rule TwinInstanceReconcile_orphan [OF assms])
  then show ?thesis
    by simp
qed

text \<open>
  In the scenario, the Instance \<open>orphan-001\<close> refers to the Interface
  \<open>humidity-sensor\<close>, which does not exist: the pass returns not-found.
\<close>

theorem C5_parent_fetch_failure_is_fatal_witness:
  "getIn (faults baseCluster) KindTwinInstance (ReqNamespace orphanReq) (ReqName orphanReq)
     emptyTwinInstance (twinInstances baseCluster) = (None, orphanInstance)
   \<and> fst (getIn (faults baseCluster) KindTwinInterface (Namespace orphanInstance)
         (Interface orphanInstance) emptyTwinInterface (twinInterfaces baseCluster))
       = Some NotFound
   \<and> retErr (TwinInstanceReconcile specReconciler orphanReq baseCluster) = Some NotFound
   \<and> obj (TwinInstanceReconcile specReconciler orphanReq baseCluster) = orphanInstance
   \<and> bindings (world (TwinInstanceReconcile specReconciler orphanReq baseCluster)) = []"
proof -
  have b: "bindings baseCluster = []"
    by (simp add: baseCluster_def)
  from C5_parent_fetch_failure_is_fatal
         [OF orphan_lookup orphan_parent_lookup, of specReconciler]
  show ?thesis
    using orphan_lookup orphan_parent_lookup b by simp
qed

section \<open>An Interface without a compute service\<close>



section \<open>Outcomes of the passes\<close>

subsection \<open>The calls of a pass\<close>

lemma no_update_member:
  "list_all (\<lambda>p. \<not> isUpdate (fst p)) l \<Longrightarrow> isUpdate k \<Longrightarrow> (k, e) \<notin> set l"
  by (auto simp: list_all_iff)

lemma passCalls_no_update: "list_all (\<lambda>p. \<not> isUpdate (fst p)) (passCalls r ti c)"
  by (simp add: passCalls_def setupCalls_def listCalls_def bindingCalls_no_update)

lemma createUpdateTwinInterface_calls:
  "calls (world (createUpdateTwinInterface r ti c)) =
     calls c @ passCalls r ti c
     @ (if passErrors r ti c = []
        then [(CallUpdate KindTwinInterface (Namespace ti) (Name ti),
               fst (updateIn (faults c) KindTwinInterface (runningInterface ti)
                      (twinInterfaces c)))]
        else [])"
proof (cases "passErrors r ti c = []")
  case True
  then show ?thesis
    by (simp add: createUpdateTwinInterface_running)
next
  case False
  then show ?thesis
    by (cases "passReturnsEarly ti c")
      (simp_all add: createUpdateTwinInterface_early createUpdateTwinInterface_failed)
qed

lemma createUpdateTwinInterface_resultErrors:
  "resultErrors (createUpdateTwinInterface r ti c) = passErrors r ti c"
proof (cases "passErrors r ti c = []")
  case True
  then show ?thesis
    by (simp add: createUpdateTwinInterface_running)
next
  case False
  then show ?thesis
    by (cases "passReturnsEarly ti c")
      (simp_all add: createUpdateTwinInterface_early createUpdateTwinInterface_failed)
qed

lemma createUpdateTwinInstance_calls:
  "calls (world (createUpdateTwinInstance r inst ti c)) =
     calls c @ bindingCalls (faults c) (GetMQQTDispatcherBindings r inst) (bindings c)
     @ (if faultErrors (faults c) (GetMQQTDispatcherBindings r inst) = []
        then [(CallUpdate KindTwinInstance (Namespace inst) (Name inst),
               fst (updateIn (faults c) KindTwinInstance (runningInstance inst)
                      (twinInstances c)))]
        else [])"
  by (cases "faultErrors (faults c) (GetMQQTDispatcherBindings r inst) = []")
    (simp_all add: createUpdateTwinInstance_running createUpdateTwinInstance_failed)

lemma createUpdateTwinInstance_resultErrors:
  "resultErrors (createUpdateTwinInstance r inst ti c) =
     faultErrors (faults c) (GetMQQTDispatcherBindings r inst)"
  by (cases "faultErrors (faults c) (GetMQQTDispatcherBindings r inst) = []")
    (simp_all add: createUpdateTwinInstance_running createUpdateTwinInstance_failed)

lemma interface_update_logged:
  assumes "isUpdate k" and "(k, e) \<in> set (newCalls c (world (createUpdateTwinInterface r ti c)))"
  shows "passErrors r ti c = []
    \<and> k = CallUpdate KindTwinInterface (Namespace ti) (Name ti)
    \<and> e = fst (updateIn (faults c) KindTwinInterface (runningInterface ti) (twinInterfaces c))"
proof -
  have n: "(k, e) \<notin> set (passCalls r ti c)"
    by (rule no_update_member [OF passCalls_no_update assms(1)])
  show ?thesis
    using assms(2) n
    by (auto simp add: createUpdateTwinInterface_calls split: if_splits)
qed

lemma instance_update_logged:
  assumes "isUpdate k"
    and "(k, e) \<in> set (newCalls c (world (createUpdateTwinInstance r inst ti c)))"
  shows "faultErrors (faults c) (GetMQQTDispatcherBindings r inst) = []
    \<and> k = CallUpdate KindTwinInstance (Namespace inst) (Name inst)
    \<and> e = fst (updateIn (faults c) KindTwinInstance (runningInstance inst) (twinInstances c))"
proof -
  have n: "(k, e) \<notin> set (bindingCalls (faults c) (GetMQQTDispatcherBindings r inst) (bindings c))"
    by (rule no_update_member [OF bindingCalls_no_update assms(1)])
  show ?thesis
    using assms(2) n
    by (auto simp add: createUpdateTwinInstance_calls split: if_splits)
qed

lemma newCalls_logCall:
  "calls c' = calls (logCall k e c) @ l \<Longrightarrow> newCalls c c' = (k, e) # l"
  by (simp add: newCalls_def)

lemma TwinInterfaceReconcile_cases:
  obtains (absent) e where
      "fst (getIn (faults c) KindTwinInterface (ReqNamespace req) (ReqName req)
             emptyTwinInterface (twinInterfaces c)) = Some e"
  | (found) ti where
      "getIn (faults c) KindTwinInterface (ReqNamespace req) (ReqName req)
             emptyTwinInterface (twinInterfaces c) = (None, ti)"
  by (cases "getIn (faults c) KindTwinInterface (ReqNamespace req) (ReqName req)
             emptyTwinInterface (twinInterfaces c)") auto

lemma TwinInstanceReconcile_cases:
  obtains (absent) e where
      "fst (getIn (faults c) KindTwinInstance (ReqNamespace req) (ReqName req)
             emptyTwinInstance (twinInstances c)) = Some e"
  | (orphan) inst e where
      "getIn (faults c) KindTwinInstance (ReqNamespace req) (ReqName req)
             emptyTwinInstance (twinInstances c) = (None, inst)"
      "fst (getIn (faults c) KindTwinInterface (Namespace inst) (Interface inst)
             emptyTwinInterface (twinInterfaces c)) = Some e"
  | (found) inst ti where
      "getIn (faults c) KindTwinInstance (ReqNamespace req) (ReqName req)
             emptyTwinInstance (twinInstances c) = (None, inst)"
      "getIn (faults c) KindTwinInterface (Namespace inst) (Interface inst)
             emptyTwinInterface (twinInterfaces c) = (None, ti)"
proof (cases "getIn (faults c) KindTwinInstance (ReqNamespace req) (ReqName req)
             emptyTwinInstance (twinInstances c)")
  case (Pair e inst)
  show ?thesis
  proof (cases e)
    case None
    note i = Pair [unfolded None]
    show ?thesis
    proof (cases "getIn (faults c) KindTwinInterface (Namespace inst) (Interface inst)
             emptyTwinInterface (twinInterfaces c)")
      case (Pair e' ti)
      show ?thesis
      proof (cases e')
        case None
        with Pair i show ?thesis
          by (intro found [of inst ti]) simp_all
      next
        case (Some a)
        with Pair i show ?thesis
          by (intro orphan [of inst a]) simp_all
      qed
    qed
  next
    case (Some a)
    with Pair show ?thesis
      by (intro absent [of a]) simp
  qed
qed

lemma interface_failed_update_returns_nil:
  assumes "isUpdate k"
    and "(k, Some e) \<in> set (newCalls c (world (TwinInterfaceReconcile r req c)))"
  shows "retErr (TwinInterfaceReconcile r req c) = None"
proof (cases rule: TwinInterfaceReconcile_cases [of c req])
  case (absent e')
  from assms show ?thesis
    by (auto simp add: TwinInterfaceReconcile_absent [OF absent] newCalls_def)
next
  case (found ti)
  let ?c = "logCall (CallGet KindTwinInterface (ReqNamespace req) (ReqName req)) None c"
  have "(k, Some e) \<in> set (newCalls ?c (world (createUpdateTwinInterface r ti ?c)))"
    using assms
    by (auto simp add: TwinInterfaceReconcile_found [OF found] createUpdateTwinInterface_calls
        newCalls_def)
  from interface_update_logged [OF assms(1) this]
  show ?thesis
    by (simp add: TwinInterfaceReconcile_found [OF found] createUpdateTwinInterface_running)
qed

lemma instance_failed_update_returns_nil:
  assumes "isUpdate k"
    and "(k, Some e) \<in> set (newCalls c (world (TwinInstanceReconcile r req c)))"
  shows "retErr (TwinInstanceReconcile r req c) = None"
proof (cases rule: TwinInstanceReconcile_cases [of c req])
  case (absent e')
  from assms show ?thesis
    by (auto simp add: TwinInstanceReconcile_absent [OF absent] newCalls_def)
next
  case (orphan inst e')
  from assms show ?thesis
    by (auto simp add: TwinInstanceReconcile_orphan [OF orphan] newCalls_def)
next
  case (found inst ti)
  let ?c = "logCall (CallGet KindTwinInterface (Namespace inst) (Interface inst)) None
               (logCall (CallGet KindTwinInstance (ReqNamespace req) (ReqName req)) None c)"
  have "(k, Some e) \<in> set (newCalls ?c (world (createUpdateTwinInstance r inst ti ?c)))"
    using assms
    by (auto simp add: TwinInstanceReconcile_found [OF found] createUpdateTwinInstance_calls
        newCalls_def)
  from instance_update_logged [OF assms(1) this]
  show ?thesis
    by (simp add: TwinInstanceReconcile_found [OF found] createUpdateTwinInstance_running)
qed

lemma plain_lookup:
  "getIn (faults updateConflictCluster) KindTwinInterface (ReqNamespace sensorReq)
     (ReqName sensorReq) emptyTwinInterface (twinInterfaces updateConflictCluster)
   = (None, plainSensor)"
  by (simp add: scenario_defs store_defs)

lemma instance_lookup:
  "getIn (faults updateConflictCluster) KindTwinInstance (ReqNamespace instanceReq)
     (ReqName instanceReq) emptyTwinInstance (twinInstances updateConflictCluster)
   = (None, sensorInstance)"
  by (simp add: scenario_defs store_defs)

lemma instance_parent_lookup:
  "getIn (faults updateConflictCluster) KindTwinInterface (Namespace sensorInstance)
     (Interface sensorInstance) emptyTwinInterface (twinInterfaces updateConflictCluster)
   = (None, plainSensor)"
  by (simp add: scenario_defs store_defs)

lemma conflict_interface_calls:
  "newCalls updateConflictCluster
     (world (TwinInterfaceReconcile specReconciler sensorReq updateConflictCluster)) =
   [(CallGet KindTwinInterface ''ktwin'' ''temperature-sensor'', None),
    (CallUpdate KindTwinInterface ''ktwin'' ''temperature-sensor'', Some (Other ''conflict''))]"
proof -
  let ?c = "logCall (CallGet KindTwinInterface (ReqNamespace sensorReq) (ReqName sensorReq))
              None updateConflictCluster"
  have e: "\<And>c. passErrors specReconciler plainSensor c = []"
    by (simp add: passErrors_def plainSensor_def)
  have p: "\<And>c. passCalls specReconciler plainSensor c = []"
    by (simp add: passCalls_def plainSensor_def)
  have u: "fst (updateIn (faults updateConflictCluster) KindTwinInterface
             (runningInterface plainSensor) (twinInterfaces updateConflictCluster))
           = Some (Other ''conflict'')"
    by (simp add: updateIn_def updateConflictCluster_def updateConflict_def)
  have n: "Namespace plainSensor = ''ktwin''" "Name plainSensor = ''temperature-sensor''"
    "ReqNamespace sensorReq = ''ktwin''" "ReqName sensorReq = ''temperature-sensor''"
    by (simp_all add: plainSensor_def sensor_def sensorReq_def)
  show ?thesis
    by (simp add: TwinInterfaceReconcile_found [OF plain_lookup] createUpdateTwinInterface_calls
        e p u n newCalls_def)
qed

lemma conflict_instance_calls:
  "newCalls updateConflictCluster
     (world (TwinInstanceReconcile specReconciler instanceReq updateConflictCluster)) =
   [(CallGet KindTwinInstance ''ktwin'' ''sensor-001'', None),
    (CallGet KindTwinInterface ''ktwin'' ''temperature-sensor'', None),
    (CallCreate KindBinding ''ktwin'' ''sensor-001-mqtt-dispatcher'', None),
    (CallUpdate KindTwinInstance ''ktwin'' ''sensor-001'', Some (Other ''conflict''))]"
proof -
  let ?c = "logCall (CallGet KindTwinInterface (Namespace sensorInstance)
                       (Interface sensorInstance)) None
              (logCall (CallGet KindTwinInstance (ReqNamespace instanceReq)
                          (ReqName instanceReq)) None updateConflictCluster)"
  have g: "GetMQQTDispatcherBindings specReconciler sensorInstance =
             [\<lparr>Name = ''sensor-001-mqtt-dispatcher'', Namespace = ''ktwin'',
               Labels = Map.empty, Source = ''amq.topic'', Destination = ''mqtt-dispatcher'',
               RoutingKey = ''sensor-001''\<rparr>]"
    by (simp add: specReconciler_def sensorInstance_def)
  have f: "faults updateConflictCluster = updateConflict"
    "bindings updateConflictCluster = []"
    by (simp_all add: updateConflictCluster_def plainCluster_def baseCluster_def)
  have u: "fst (updateIn updateConflict KindTwinInstance
             (runningInstance sensorInstance) (twinInstances updateConflictCluster))
           = Some (Other ''conflict'')"
    by (simp add: updateIn_def updateConflict_def)
  have n: "Namespace sensorInstance = ''ktwin''" "Name sensorInstance = ''sensor-001''"
    "Interface sensorInstance = ''temperature-sensor''"
    "ReqNamespace instanceReq = ''ktwin''" "ReqName instanceReq = ''sensor-001''"
    by (simp_all add: sensorInstance_def instanceReq_def)
  have k: "createFault updateConflict b = None" for b
    by (simp add: createFault_def updateConflict_def)
  have i: "fst (createIn updateConflict KindBinding b []) = None" for b :: Binding
    by (simp add: createIn_def updateConflict_def)
  show ?thesis
    by (simp add: TwinInstanceReconcile_found [OF instance_lookup instance_parent_lookup]
        createUpdateTwinInstance_calls g f u n newCalls_def k i)
qed

subsection \<open>What the update stores\<close>

lemma find_replaceFirst: "list_ex p xs \<Longrightarrow> p y \<Longrightarrow> find p (replaceFirst p y xs) = Some y"
  by (induction xs) auto

lemma updateIn_stored:
  "fst (updateIn flt k x xs) = None \<Longrightarrow>
     find (sameKey (Namespace x) (Name x)) (snd (updateIn flt k x xs)) = Some x"
  by (auto simp add: updateIn_def find_replaceFirst sameKey_def split: option.splits if_splits)

lemma running_key [simp]:
  "Name (runningInterface ti) = Name ti" "Namespace (runningInterface ti) = Namespace ti"
  "Name (runningInstance inst) = Name inst" "Namespace (runningInstance inst) = Namespace inst"
  by (simp_all add: runningInterface_def runningInstance_def)

lemma createUpdateTwinInterface_verdict:
  "retErr (createUpdateTwinInterface r ti c) =
     (if passReturnsEarly ti c then fst (eventStoreQueueList ti c)
      else if passErrors r ti c \<noteq> [] then passErrors r ti c ! 0 else None)"
  "obj (createUpdateTwinInterface r ti c) =
     (if passReturnsEarly ti c then ti
      else if passErrors r ti c \<noteq> [] then ti\<lparr>Status := TwinInterfacePhaseFailed\<rparr>
      else runningInterface ti)"
proof -
  have early: "passErrors r ti c \<noteq> []" if "passReturnsEarly ti c"
    using that by (auto simp add: passReturnsEarly_def passErrors_def listErrors_def)
  show "retErr (createUpdateTwinInterface r ti c) =
     (if passReturnsEarly ti c then fst (eventStoreQueueList ti c)
      else if passErrors r ti c \<noteq> [] then passErrors r ti c ! 0 else None)"
    using early
    by (auto simp add: createUpdateTwinInterface_early createUpdateTwinInterface_failed
        createUpdateTwinInterface_running)
  show "obj (createUpdateTwinInterface r ti c) =
     (if passReturnsEarly ti c then ti
      else if passErrors r ti c \<noteq> [] then ti\<lparr>Status := TwinInterfacePhaseFailed\<rparr>
      else runningInterface ti)"
    using early
    by (auto simp add: createUpdateTwinInterface_early createUpdateTwinInterface_failed
        createUpdateTwinInterface_running)
qed

lemma createUpdateTwinInstance_verdict:
  "retErr (createUpdateTwinInstance r inst ti c) =
     (if faultErrors (faults c) (GetMQQTDispatcherBindings r inst) \<noteq> []
      then faultErrors (faults c) (GetMQQTDispatcherBindings r inst) ! 0 else None)"
  "obj (createUpdateTwinInstance r inst ti c) =
     (if faultErrors (faults c) (GetMQQTDispatcherBindings r inst) \<noteq> []
      then inst\<lparr>InstanceStatus := TwinInstancePhaseFailed\<rparr>
      else runningInstance inst)"
  by (auto simp add: createUpdateTwinInstance_failed createUpdateTwinInstance_running)

text \<open>
  Claim C10. Every pass that reaches the label-and-persist step (its log shows the
  update call) leaves its object with a label map of exactly one entry,
  \<open>ktwin/twin-interface\<close>, whatever labels it had; when the update succeeds, that object
  is what the cluster stores. For an Interface the value is its name; for an Instance it
  is the Instance's own name, not the name of its parent Interface.
\<close>

theorem C10_labels_replaced:
  assumes "isUpdate k" and "isUpdate k'"
  shows "((k, e) \<in> set (newCalls c (world (createUpdateTwinInterface r ti c))) \<longrightarrow>
            Labels (obj (createUpdateTwinInterface r ti c)) =
              [''ktwin/twin-interface'' \<mapsto> Name ti])
    \<and> ((k, None) \<in> set (newCalls c (world (createUpdateTwinInterface r ti c))) \<longrightarrow>
            find (sameKey (Namespace ti) (Name ti))
              (twinInterfaces (world (createUpdateTwinInterface r ti c)))
            = Some (obj (createUpdateTwinInterface r ti c)))
    \<and> ((k', e') \<in> set (newCalls c' (world (createUpdateTwinInstance r' inst ti' c'))) \<longrightarrow>
            Labels (obj (createUpdateTwinInstance r' inst ti' c')) =
              [''ktwin/twin-interface'' \<mapsto> Name inst])
    \<and> ((k', None) \<in> set (newCalls c' (world (createUpdateTwinInstance r' inst ti' c'))) \<longrightarrow>
            find (sameKey (Namespace inst) (Name inst))
              (twinInstances (world (createUpdateTwinInstance r' inst ti' c')))
            = Some (obj (createUpdateTwinInstance r' inst ti' c')))"
proof (intro conjI impI)
  assume "(k, e) \<in> set (newCalls c (world (createUpdateTwinInterface r ti c)))"
  from interface_update_logged [OF assms(1) this]
  show "Labels (obj (createUpdateTwinInterface r ti c)) = [''ktwin/twin-interface'' \<mapsto> Name ti]"
    by (simp add: createUpdateTwinInterface_running runningInterface_def)
next
  assume "(k, None) \<in> set (newCalls c (world (createUpdateTwinInterface r ti c)))"
  from interface_update_logged [OF assms(1) this]
  have e: "passErrors r ti c = []"
    and u: "fst (updateIn (faults c) KindTwinInterface (runningInterface ti) (twinInterfaces c))
              = None"
    by simp_all
  from updateIn_stored [OF u] show "find (sameKey (Namespace ti) (Name ti))
              (twinInterfaces (world (createUpdateTwinInterface r ti c)))
            = Some (obj (createUpdateTwinInterface r ti c))"
    by (simp add: createUpdateTwinInterface_running [OF e])
next
  assume "(k', e') \<in> set (newCalls c' (world (createUpdateTwinInstance r' inst ti' c')))"
  from instance_update_logged [OF assms(2) this]
  show "Labels (obj (createUpdateTwinInstance r' inst ti' c')) =
          [''ktwin/twin-interface'' \<mapsto> Name inst]"
    by (simp add: createUpdateTwinInstance_running runningInstance_def)
next
  assume "(k', None) \<in> set (newCalls c' (world (createUpdateTwinInstance r' inst ti' c')))"
  from instance_update_logged [OF assms(2) this]
  have e: "faultErrors (faults c') (GetMQQTDispatcherBindings r' inst) = []"
    and u: "fst (updateIn (faults c') KindTwinInstance (runningInstance inst) (twinInstances c'))
              = None"
    by simp_all
  from updateIn_stored [OF u] show "find (sameKey (Namespace inst) (Name inst))
              (twinInstances (world (createUpdateTwinInstance r' inst ti' c')))
            = Some (obj (createUpdateTwinInstance r' inst ti' c'))"
    by (simp add: createUpdateTwinInstance_running [OF e])
qed

subsection \<open>Already-exists\<close>

lemma appendUnless_createIn:
  "appendUnlessAlreadyExists errs (fst (createIn flt k x xs)) =
     errs @ (case flt (CallCreate k (Namespace x) (Name x)) of
               None \<Rightarrow> [] | Some m \<Rightarrow> [Some (Other m)])"
  by (simp add: createIn_def appendUnlessAlreadyExists_def IsAlreadyExists_def
      split: option.splits)

lemma appendUnless_keeps:
  "Some AlreadyExists \<notin> set errs \<Longrightarrow>
     Some AlreadyExists \<notin> set (appendUnlessAlreadyExists errs e)"
  by (auto simp add: appendUnlessAlreadyExists_def IsAlreadyExists_def)

lemma listIn_not_AlreadyExists [simp]:
  "fst (listIn flt k ns sel xs) \<noteq> Some AlreadyExists"
  "Some AlreadyExists \<noteq> fst (listIn flt k ns sel xs)"
  by (simp_all add: listIn_def split: option.splits)

lemma getIn_not_AlreadyExists [simp]:
  "fst (getIn flt k ns n into xs) \<noteq> Some AlreadyExists"
  "Some AlreadyExists \<noteq> fst (getIn flt k ns n into xs)"
  by (simp_all add: getIn_def split: option.splits)

lemma faultErrors_not_AlreadyExists: "Some AlreadyExists \<notin> set (faultErrors flt bs)"
  by (induction bs) (auto split: option.splits)

lemma passErrors_not_AlreadyExists: "Some AlreadyExists \<notin> set (passErrors r ti c)"
proof -
  have s: "Some AlreadyExists \<notin> set (setupErrors r ti c)"
    unfolding setupErrors_def by (intro appendUnless_keeps) simp
  have l: "Some AlreadyExists \<notin> set (listErrors ti c)"
    by (auto simp add: listErrors_def eventStoreQueueList_def brokerExchangeList_def
        interfaceQueueList_def)
  show ?thesis
    using s l by (simp add: passErrors_def faultErrors_not_AlreadyExists)
qed

lemma nth0_not: "x \<notin> set xs \<Longrightarrow> xs \<noteq> [] \<Longrightarrow> xs ! 0 \<noteq> x"
  by (cases xs) auto

lemma interface_pass_not_AlreadyExists:
  "Some AlreadyExists \<notin> set (resultErrors (createUpdateTwinInterface r ti c))
   \<and> retErr (createUpdateTwinInterface r ti c) \<noteq> Some AlreadyExists"
  using passErrors_not_AlreadyExists [of r ti c]
  by (auto simp add: createUpdateTwinInterface_resultErrors createUpdateTwinInterface_verdict
      eventStoreQueueList_def dest: nth0_not)

lemma instance_pass_not_AlreadyExists:
  "Some AlreadyExists \<notin> set (resultErrors (createUpdateTwinInstance r inst ti c))
   \<and> retErr (createUpdateTwinInstance r inst ti c) \<noteq> Some AlreadyExists"
  using faultErrors_not_AlreadyExists [of "faults c" "GetMQQTDispatcherBindings r inst"]
  by (auto simp add: createUpdateTwinInstance_resultErrors createUpdateTwinInstance_verdict
      dest: nth0_not)

lemma interface_reconcile_not_AlreadyExists:
  "Some AlreadyExists \<notin> set (resultErrors (TwinInterfaceReconcile r req c))
   \<and> retErr (TwinInterfaceReconcile r req c) \<noteq> Some AlreadyExists"
proof (cases rule: TwinInterfaceReconcile_cases [of c req])
  case (absent e)
  have "e \<noteq> AlreadyExists"
    using absent getIn_not_AlreadyExists(1) by force
  then show ?thesis
    by (simp add: TwinInterfaceReconcile_absent [OF absent])
next
  case (found ti)
  show ?thesis
    by (simp add: TwinInterfaceReconcile_found [OF found] interface_pass_not_AlreadyExists)
qed

lemma instance_reconcile_not_AlreadyExists:
  "Some AlreadyExists \<notin> set (resultErrors (TwinInstanceReconcile r req c))
   \<and> retErr (TwinInstanceReconcile r req c) \<noteq> Some AlreadyExists"
proof (cases rule: TwinInstanceReconcile_cases [of c req])
  case (absent e)
  have "e \<noteq> AlreadyExists"
    using absent getIn_not_AlreadyExists(1) by force
  then show ?thesis
    by (simp add: TwinInstanceReconcile_absent [OF absent])
next
  case (orphan inst e)
  have "e \<noteq> AlreadyExists"
    using orphan(2) getIn_not_AlreadyExists(1) by force
  then show ?thesis
    by (simp add: TwinInstanceReconcile_orphan [OF orphan])
next
  case (found inst ti)
  show ?thesis
    by (simp add: TwinInstanceReconcile_found [OF found] instance_pass_not_AlreadyExists)
qed

lemma interface_pass_ignores_existing:
  "resultErrors (createUpdateTwinInterface r ti (c\<lparr>kservices := S, bindings := B\<rparr>))
     = resultErrors (createUpdateTwinInterface r ti c)
   \<and> retErr (createUpdateTwinInterface r ti (c\<lparr>kservices := S, bindings := B\<rparr>))
     = retErr (createUpdateTwinInterface r ti c)
   \<and> Status (obj (createUpdateTwinInterface r ti (c\<lparr>kservices := S, bindings := B\<rparr>)))
     = Status (obj (createUpdateTwinInterface r ti c))"
proof -
  have e: "passErrors r ti (c\<lparr>kservices := S, bindings := B\<rparr>) = passErrors r ti c"
    by (simp add: passErrors_def summary_defs appendUnless_createIn)
  have p: "passReturnsEarly ti (c\<lparr>kservices := S, bindings := B\<rparr>) = passReturnsEarly ti c"
    "eventStoreQueueList ti (c\<lparr>kservices := S, bindings := B\<rparr>) = eventStoreQueueList ti c"
    by (simp_all add: passReturnsEarly_def eventStoreQueueList_def)
  show ?thesis
    by (simp add: createUpdateTwinInterface_resultErrors createUpdateTwinInterface_verdict e p)
qed

lemma instance_pass_ignores_existing:
  "resultErrors (createUpdateTwinInstance r inst ti (c\<lparr>bindings := B\<rparr>))
     = resultErrors (createUpdateTwinInstance r inst ti c)
   \<and> retErr (createUpdateTwinInstance r inst ti (c\<lparr>bindings := B\<rparr>))
     = retErr (createUpdateTwinInstance r inst ti c)
   \<and> InstanceStatus (obj (createUpdateTwinInstance r inst ti (c\<lparr>bindings := B\<rparr>)))
     = InstanceStatus (obj (createUpdateTwinInstance r inst ti c))"
  by (simp add: createUpdateTwinInstance_resultErrors createUpdateTwinInstance_verdict)

subsection \<open>A pass from the request, summarised\<close>

lemma summaries_logCall [simp]:
  "eventStoreQueueList ti (logCall k e c) = eventStoreQueueList ti c"
  "brokerExchangeList ti (logCall k e c) = brokerExchangeList ti c"
  "interfaceQueueList ti (logCall k e c) = interfaceQueueList ti c"
  "createdService r ti (logCall k e c) = createdService r ti c"
  "createdTrigger r ti (logCall k e c) = createdTrigger r ti c"
  "fetchedTrigger r ti (logCall k e c) = fetchedTrigger r ti c"
  by (simp_all add: summary_defs)

lemma pass_logCall [simp]:
  "passReturnsEarly ti (logCall k e c) = passReturnsEarly ti c"
  "passErrors r ti (logCall k e c) = passErrors r ti c"
  "passBindings r ti (logCall k e c) = passBindings r ti c"
  "passCalls r ti (logCall k e c) = passCalls r ti c"
  by (simp_all add: passReturnsEarly_def passErrors_def passBindings_def passCalls_def
      setupErrors_def setupCalls_def listErrors_def listCalls_def bindingsDue_def)

lemma createUpdateTwinInterface_twinInterfaces:
  "twinInterfaces (world (createUpdateTwinInterface r ti c)) =
     (if passErrors r ti c = []
      then snd (updateIn (faults c) KindTwinInterface (runningInterface ti) (twinInterfaces c))
      else twinInterfaces c)"
proof (cases "passErrors r ti c = []")
  case True
  then show ?thesis
    by (simp add: createUpdateTwinInterface_running)
next
  case False
  then show ?thesis
    by (cases "passReturnsEarly ti c")
      (simp_all add: createUpdateTwinInterface_early createUpdateTwinInterface_failed)
qed

lemma TwinInterfaceReconcile_summary:
  assumes "getIn (faults c) KindTwinInterface (ReqNamespace req) (ReqName req)
             emptyTwinInterface (twinInterfaces c) = (None, ti)"
  shows "retErr (TwinInterfaceReconcile r req c) =
           (if passReturnsEarly ti c then fst (eventStoreQueueList ti c)
            else if passErrors r ti c \<noteq> [] then passErrors r ti c ! 0 else None)"
    and "obj (TwinInterfaceReconcile r req c) =
           (if passReturnsEarly ti c then ti
            else if passErrors r ti c \<noteq> [] then ti\<lparr>Status := TwinInterfacePhaseFailed\<rparr>
            else runningInterface ti)"
    and "resultErrors (TwinInterfaceReconcile r req c) = passErrors r ti c"
    and "newCalls c (world (TwinInterfaceReconcile r req c)) =
           (CallGet KindTwinInterface (ReqNamespace req) (ReqName req), None)
           # passCalls r ti c
           @ (if passErrors r ti c = []
              then [(CallUpdate KindTwinInterface (Namespace ti) (Name ti),
                     fst (updateIn (faults c) KindTwinInterface (runningInterface ti)
                            (twinInterfaces c)))]
              else [])"
    and "bindings (world (TwinInterfaceReconcile r req c)) =
           addBindings (faults c) (passBindings r ti c) (bindings c)"
    and "twinInterfaces (world (TwinInterfaceReconcile r req c)) =
           (if passErrors r ti c = []
            then snd (updateIn (faults c) KindTwinInterface (runningInterface ti)
                        (twinInterfaces c))
            else twinInterfaces c)"
    and "kservices (world (TwinInterfaceReconcile r req c)) =
           (if Service ti = None then kservices c else snd (createdService r ti c))"
    and "triggers (world (TwinInterfaceReconcile r req c)) =
           (if Service ti = None then triggers c else snd (createdTrigger r ti c))"
    and "faults (world (TwinInterfaceReconcile r req c)) = faults c"
    and "exchanges (world (TwinInterfaceReconcile r req c)) = exchanges c"
    and "queues (world (TwinInterfaceReconcile r req c)) = queues c"
  by (simp_all add: TwinInterfaceReconcile_found [OF assms] createUpdateTwinInterface_verdict
      createUpdateTwinInterface_resultErrors createUpdateTwinInterface_calls
      createUpdateTwinInterface_frame createUpdateTwinInterface_twinInterfaces newCalls_def)

lemmas pass_defs =
  passReturnsEarly_def passErrors_def passBindings_def passCalls_def summary_defs
  appendUnlessAlreadyExists_def IsAlreadyExists_def createFault_def

lemma noStoreQueue_lookup:
  "getIn (faults noStoreQueueCluster) KindTwinInterface (ReqNamespace sensorReq)
     (ReqName sensorReq) emptyTwinInterface (twinInterfaces noStoreQueueCluster)
   = (None, sensor)"
  by (simp add: scenario_defs store_defs)

lemma noStoreQueue_lists:
  "eventStoreQueueList sensor noStoreQueueCluster = (None, [])"
  "snd (brokerExchangeList sensor noStoreQueueCluster) = [defaultExchange]"
  "snd (interfaceQueueList sensor noStoreQueueCluster) = [sensorQueue]"
  by (simp_all add: scenario_defs summary_defs store_defs)

lemma noStoreQueue_pass:
  "passReturnsEarly sensor noStoreQueueCluster"
  "passErrors specReconciler sensor noStoreQueueCluster = [None]"
  "passBindings specReconciler sensor noStoreQueueCluster = []"
  "passCalls specReconciler sensor noStoreQueueCluster =
     [(CallCreate KindService ''ktwin'' ''temperature-sensor'', None),
      (CallCreate KindTrigger ''ktwin'' ''temperature-sensor'', None),
      (CallGet KindTrigger ''ktwin'' ''temperature-sensor'', None),
      (CallList KindQueue ''ktwin''
         [(''eventing.knative.dev/trigger'', ''event-store-trigger'')], None)]"
  by (simp_all add: scenario_defs pass_defs store_defs)

lemma sensor_key:
  "Name sensor = ''temperature-sensor''" "Namespace sensor = ''ktwin''"
  "ReqName sensorReq = ''temperature-sensor''" "ReqNamespace sensorReq = ''ktwin''"
  "Service sensor \<noteq> None" "Status sensor = TwinInterfacePhaseUnset"
  by (simp_all add: sensor_def sensorReq_def)

text \<open>
  Claim C1 asks that an absent event-store Queue is accumulated as one error while the
  Exchange and the interface Queue are still resolved, the relationship Bindings created
  and the phase set to Failed. The code returns at line 120 instead. In the scenario
  without the event-store queue (exchange and interface queue present), the pass makes
  the first four calls and the list call for the event-store queue and stops: the
  exchange and the interface queue are not listed, no binding is created, the phase of
  the Interface stays unset, nothing is written back, and the caller gets nil.
\<close>

theorem C1_missing_event_store_queue_aborts:
  "snd (eventStoreQueueList sensor noStoreQueueCluster) = []
   \<and> snd (brokerExchangeList sensor noStoreQueueCluster) = [defaultExchange]
   \<and> snd (interfaceQueueList sensor noStoreQueueCluster) = [sensorQueue]
   \<and> newCalls noStoreQueueCluster
        (world (TwinInterfaceReconcile specReconciler sensorReq noStoreQueueCluster)) =
       [(CallGet KindTwinInterface ''ktwin'' ''temperature-sensor'', None),
        (CallCreate KindService ''ktwin'' ''temperature-sensor'', None),
        (CallCreate KindTrigger ''ktwin'' ''temperature-sensor'', None),
        (CallGet KindTrigger ''ktwin'' ''temperature-sensor'', None),
        (CallList KindQueue ''ktwin''
           [(''eventing.knative.dev/trigger'', ''event-store-trigger'')], None)]
   \<and> bindings (world (TwinInterfaceReconcile specReconciler sensorReq noStoreQueueCluster)) = []
   \<and> Status (obj (TwinInterfaceReconcile specReconciler sensorReq noStoreQueueCluster))
       = TwinInterfacePhaseUnset
   \<and> retErr (TwinInterfaceReconcile specReconciler sensorReq noStoreQueueCluster) = None
   \<and> twinInterfaces (world (TwinInterfaceReconcile specReconciler sensorReq noStoreQueueCluster))
       = twinInterfaces noStoreQueueCluster"
proof -
  have b: "bindings noStoreQueueCluster = []"
    by (simp add: noStoreQueueCluster_def baseCluster_def)
  show ?thesis
    by (simp add: TwinInterfaceReconcile_summary [OF noStoreQueue_lookup] noStoreQueue_lists
        noStoreQueue_pass sensor_key b)
qed

subsection \<open>A failed create\<close>

lemma serviceFault_lookup:
  "getIn (faults serviceFaultCluster) KindTwinInterface (ReqNamespace sensorReq)
     (ReqName sensorReq) emptyTwinInterface (twinInterfaces serviceFaultCluster)
   = (None, sensor)"
  by (simp add: scenario_defs store_defs)

lemma serviceFault_pass:
  "\<not> passReturnsEarly sensor serviceFaultCluster"
  "passErrors specReconciler sensor serviceFaultCluster = [Some (Other ''connection refused'')]"
  "map fst (passCalls specReconciler sensor serviceFaultCluster) =
     [CallCreate KindService ''ktwin'' ''temperature-sensor'',
      CallCreate KindTrigger ''ktwin'' ''temperature-sensor'',
      CallGet KindTrigger ''ktwin'' ''temperature-sensor'',
      CallList KindQueue ''ktwin''
         [(''eventing.knative.dev/trigger'', ''event-store-trigger'')],
      CallList KindExchange ''ktwin'' [(''eventing.knative.dev/broker'', ''ktwin'')],
      CallList KindQueue ''ktwin''
         [(''eventing.knative.dev/broker'', ''ktwin''),
          (''eventing.knative.dev/trigger'', ''temperature-sensor'')],
      CallCreate KindBinding ''ktwin'' ''temperature-sensor-real'',
      CallCreate KindBinding ''ktwin'' ''temperature-sensor-virtual'',
      CallCreate KindBinding ''ktwin'' ''temperature-sensor-event-store'']"
  by (simp_all add: scenario_defs pass_defs store_defs)

text \<open>
  Claim C2 asks that a pass with accumulated errors sets the phase Failed and returns
  the first error, and that every pass that completes the create sequence applies the
  identity label and persists the status, Failed or Running. The code does the first
  and not the second: line 186 returns before the label and the update. In the
  scenario where the create of the compute service fails, the pass completes the
  sequence, sets Failed on its object and returns the error of the create, but the
  object keeps its old labels, no update call is made, and the stored Interface keeps
  its unset phase.
\<close>

theorem C2_failed_status_not_persisted:
  "resultErrors (TwinInterfaceReconcile specReconciler sensorReq serviceFaultCluster)
     = [Some (Other ''connection refused'')]
   \<and> retErr (TwinInterfaceReconcile specReconciler sensorReq serviceFaultCluster)
       = Some (Other ''connection refused'')
   \<and> Status (obj (TwinInterfaceReconcile specReconciler sensorReq serviceFaultCluster))
       = TwinInterfacePhaseFailed
   \<and> Labels (obj (TwinInterfaceReconcile specReconciler sensorReq serviceFaultCluster))
       = Labels sensor
   \<and> Labels sensor ''ktwin/twin-interface'' = None
   \<and> map fst (newCalls serviceFaultCluster
        (world (TwinInterfaceReconcile specReconciler sensorReq serviceFaultCluster))) =
       [CallGet KindTwinInterface ''ktwin'' ''temperature-sensor'',
        CallCreate KindService ''ktwin'' ''temperature-sensor'',
        CallCreate KindTrigger ''ktwin'' ''temperature-sensor'',
        CallGet KindTrigger ''ktwin'' ''temperature-sensor'',
        CallList KindQueue ''ktwin''
           [(''eventing.knative.dev/trigger'', ''event-store-trigger'')],
        CallList KindExchange ''ktwin'' [(''eventing.knative.dev/broker'', ''ktwin'')],
        CallList KindQueue ''ktwin''
           [(''eventing.knative.dev/broker'', ''ktwin''),
            (''eventing.knative.dev/trigger'', ''temperature-sensor'')],
        CallCreate KindBinding ''ktwin'' ''temperature-sensor-real'',
        CallCreate KindBinding ''ktwin'' ''temperature-sensor-virtual'',
        CallCreate KindBinding ''ktwin'' ''temperature-sensor-event-store'']
   \<and> twinInterfaces (world (TwinInterfaceReconcile specReconciler sensorReq serviceFaultCluster))
       = [sensor]
   \<and> Status sensor = TwinInterfacePhaseUnset"
proof -
  have t: "twinInterfaces serviceFaultCluster = [sensor]"
    by (simp add: serviceFaultCluster_def baseCluster_def)
  have l: "Labels sensor ''ktwin/twin-interface'' = None"
    by (simp add: sensor_def)
  show ?thesis
    by (simp add: TwinInterfaceReconcile_summary [OF serviceFault_lookup] serviceFault_pass
        sensor_key t l)
qed

subsection \<open>No default exchange\<close>

lemma noInfrastructure_lookup:
  "getIn (faults noInfrastructureCluster) KindTwinInterface (ReqNamespace sensorReq)
     (ReqName sensorReq) emptyTwinInterface (twinInterfaces noInfrastructureCluster)
   = (None, sensor)"
  by (simp add: scenario_defs store_defs)

lemma noInfrastructure_pass:
  "snd (brokerExchangeList sensor noInfrastructureCluster) = []"
  "eventStoreQueueList sensor noInfrastructureCluster = (None, [])"
  "passReturnsEarly sensor noInfrastructureCluster"
  "passBindings specReconciler sensor noInfrastructureCluster = []"
  "snd (createdService specReconciler sensor noInfrastructureCluster) =
     [GetService specReconciler sensor]"
  "snd (createdTrigger specReconciler sensor noInfrastructureCluster) =
     [GetTwinInterfaceTrigger specReconciler sensor]"
  by (simp_all add: scenario_defs pass_defs store_defs)

text \<open>
  Claim C3 asks that with no default broker Exchange the pass ends with phase Failed,
  creates no relationship Binding, and still creates the Trigger and the compute
  service. In the scenario with neither the exchange nor the event-store queue, the
  service and the trigger are created and no binding is, but the pass returns at
  line 120 before it looks for the exchange: the phase stays unset and the caller gets
  nil. (With the event-store queue present the claim holds: \<open>missing_exchange_fails_pass\<close>.)
\<close>

theorem C3_missing_exchange_and_store_queue_not_failed:
  "snd (brokerExchangeList sensor noInfrastructureCluster) = []
   \<and> snd (eventStoreQueueList sensor noInfrastructureCluster) = []
   \<and> Status (obj (TwinInterfaceReconcile specReconciler sensorReq noInfrastructureCluster))
       = TwinInterfacePhaseUnset
   \<and> retErr (TwinInterfaceReconcile specReconciler sensorReq noInfrastructureCluster) = None
   \<and> kservices (world (TwinInterfaceReconcile specReconciler sensorReq noInfrastructureCluster))
       = [GetService specReconciler sensor]
   \<and> triggers (world (TwinInterfaceReconcile specReconciler sensorReq noInfrastructureCluster))
       = [GetTwinInterfaceTrigger specReconciler sensor]
   \<and> bindings (world (TwinInterfaceReconcile specReconciler sensorReq noInfrastructureCluster))
       = []"
proof -
  have b: "bindings noInfrastructureCluster = []"
    by (simp add: noInfrastructureCluster_def baseCluster_def)
  show ?thesis
    by (simp add: TwinInterfaceReconcile_summary [OF noInfrastructure_lookup]
        noInfrastructure_pass sensor_key b)
qed


lemma missing_exchange_fails_pass:
  assumes "Service ti \<noteq> None" and "snd (eventStoreQueueList ti c) \<noteq> []"
    and "snd (brokerExchangeList ti c) = []"
  shows "Status (obj (createUpdateTwinInterface r ti c)) = TwinInterfacePhaseFailed
    \<and> bindings (world (createUpdateTwinInterface r ti c)) = bindings c
    \<and> map fst (newCalls c (world (createUpdateTwinInterface r ti c))) =
        [CallCreate KindService (Namespace (GetService r ti)) (Name (GetService r ti)),
         CallCreate KindTrigger (Namespace (GetTwinInterfaceTrigger r ti))
           (Name (GetTwinInterfaceTrigger r ti)),
         CallGet KindTrigger (Namespace (GetTwinInterfaceTrigger r ti))
           (Name (GetTwinInterfaceTrigger r ti)),
         CallList KindQueue (Namespace ti)
           [(''eventing.knative.dev/trigger'', ''event-store-trigger'')],
         CallList KindExchange (Namespace ti) [(''eventing.knative.dev/broker'', ''ktwin'')]]"
proof -
  have e: "passErrors r ti c \<noteq> []" "\<not> passReturnsEarly ti c"
    using assms by (simp_all add: passErrors_def listErrors_def passReturnsEarly_def)
  have p: "passBindings r ti c = []"
    using assms by (simp add: passBindings_def bindingsDue_def)
  have k: "passCalls r ti c = setupCalls r ti c @ listCalls ti c"
    using assms by (auto simp add: passCalls_def bindingsDue_def)
  show ?thesis
    using assms e
    by (simp add: createUpdateTwinInterface_verdict createUpdateTwinInterface_frame
        createUpdateTwinInterface_calls p k setupCalls_def listCalls_def)
qed

subsection \<open>An empty list answer\<close>

lemma createIn_present:
  "flt (CallCreate k (Namespace x) (Name x)) = None \<Longrightarrow>
     list_ex (sameKey (Namespace x) (Name x)) (snd (createIn flt k x xs))"
  by (simp add: createIn_def sameKey_def)











text \<open>
  Claim C9. In both reconcilers, when the log of a pass shows an update call that
  failed, the pass returns nil to the caller.
\<close>

theorem C9_failed_update_returns_nil:
  assumes "isUpdate k" and "isUpdate k'"
  shows "((k, Some e) \<in> set (newCalls c (world (TwinInterfaceReconcile r req c))) \<longrightarrow>
            retErr (TwinInterfaceReconcile r req c) = None)
    \<and> ((k', Some e') \<in> set (newCalls c' (world (TwinInstanceReconcile r' req' c'))) \<longrightarrow>
            retErr (TwinInstanceReconcile r' req' c') = None)"
proof (intro conjI impI)
  assume "(k, Some e) \<in> set (newCalls c (world (TwinInterfaceReconcile r req c)))"
  with assms(1) show "retErr (TwinInterfaceReconcile r req c) = None"
    by (rule interface_failed_update_returns_nil)
next
  assume "(k', Some e') \<in> set (newCalls c' (world (TwinInstanceReconcile r' req' c')))"
  with assms(2) show "retErr (TwinInstanceReconcile r' req' c') = None"
    by (rule instance_failed_update_returns_nil)
qed

theorem C9_failed_update_returns_nil_witness:
  "isUpdate (CallUpdate KindTwinInterface ''ktwin'' ''temperature-sensor'')
   \<and> (CallUpdate KindTwinInterface ''ktwin'' ''temperature-sensor'', Some (Other ''conflict''))
       \<in> set (newCalls updateConflictCluster
                (world (TwinInterfaceReconcile specReconciler sensorReq updateConflictCluster)))
   \<and> retErr (TwinInterfaceReconcile specReconciler sensorReq updateConflictCluster) = None
   \<and> isUpdate (CallUpdate KindTwinInstance ''ktwin'' ''sensor-001'')
   \<and> (CallUpdate KindTwinInstance ''ktwin'' ''sensor-001'', Some (Other ''conflict''))
       \<in> set (newCalls updateConflictCluster
                (world (TwinInstanceReconcile specReconciler instanceReq updateConflictCluster)))
   \<and> retErr (TwinInstanceReconcile specReconciler instanceReq updateConflictCluster) = None"
  using C9_failed_update_returns_nil
    [of "CallUpdate KindTwinInterface ''ktwin'' ''temperature-sensor''"
        "CallUpdate KindTwinInstance ''ktwin'' ''sensor-001''"
        "Other ''conflict''" updateConflictCluster specReconciler sensorReq
        "Other ''conflict''" updateConflictCluster specReconciler instanceReq]
    conflict_interface_calls conflict_instance_calls
  by simp

lemma plain_pass_calls:
  "newCalls plainCluster (world (createUpdateTwinInterface specReconciler plainSensor plainCluster))
     = [(CallUpdate KindTwinInterface ''ktwin'' ''temperature-sensor'', None)]"
proof -
  have e: "passErrors specReconciler plainSensor plainCluster = []"
    "passCalls specReconciler plainSensor plainCluster = []"
    by (simp_all add: passErrors_def passCalls_def plainSensor_def)
  have u: "fst (updateIn (faults plainCluster) KindTwinInterface (runningInterface plainSensor)
             (twinInterfaces plainCluster)) = None"
    by (simp add: scenario_defs store_defs runningInterface_def)
  have n: "Namespace plainSensor = ''ktwin''" "Name plainSensor = ''temperature-sensor''"
    by (simp_all add: plainSensor_def sensor_def)
  show ?thesis
    by (simp add: createUpdateTwinInterface_calls e u n)
qed

lemma sensorInstance_pass_calls:
  "newCalls baseCluster
     (world (createUpdateTwinInstance specReconciler sensorInstance sensor baseCluster))
     = [(CallCreate KindBinding ''ktwin'' ''sensor-001-mqtt-dispatcher'', None),
        (CallUpdate KindTwinInstance ''ktwin'' ''sensor-001'', None)]"
proof -
  have e: "faultErrors (faults baseCluster)
             (GetMQQTDispatcherBindings specReconciler sensorInstance) = []"
    by (simp add: scenario_defs createFault_def)
  have b: "bindingCalls (faults baseCluster)
             (GetMQQTDispatcherBindings specReconciler sensorInstance) (bindings baseCluster)
           = [(CallCreate KindBinding ''ktwin'' ''sensor-001-mqtt-dispatcher'', None)]"
    by (simp add: scenario_defs store_defs)
  have u: "fst (updateIn (faults baseCluster) KindTwinInstance (runningInstance sensorInstance)
             (twinInstances baseCluster)) = None"
    by (simp add: scenario_defs store_defs runningInstance_def)
  have n: "Namespace sensorInstance = ''ktwin''" "Name sensorInstance = ''sensor-001''"
    by (simp_all add: sensorInstance_def)
  show ?thesis
    by (simp add: createUpdateTwinInstance_calls e b u n)
qed

lemma scenario_names:
  "Name plainSensor = ''temperature-sensor''" "Name sensorInstance = ''sensor-001''"
  "Interface sensorInstance = ''temperature-sensor''"
  "Labels plainSensor = [''team'' \<mapsto> ''lab'']"
  "Labels sensorInstance = [''team'' \<mapsto> ''lab'']"
  by (simp_all add: plainSensor_def sensor_def sensorInstance_def)

theorem C10_labels_replaced_witness:
  "isUpdate (CallUpdate KindTwinInterface ''ktwin'' ''temperature-sensor'')
   \<and> Labels plainSensor = [''team'' \<mapsto> ''lab'']
   \<and> (CallUpdate KindTwinInterface ''ktwin'' ''temperature-sensor'', None)
       \<in> set (newCalls plainCluster
                (world (createUpdateTwinInterface specReconciler plainSensor plainCluster)))
   \<and> Labels (obj (createUpdateTwinInterface specReconciler plainSensor plainCluster))
       = [''ktwin/twin-interface'' \<mapsto> ''temperature-sensor'']
   \<and> isUpdate (CallUpdate KindTwinInstance ''ktwin'' ''sensor-001'')
   \<and> Labels sensorInstance = [''team'' \<mapsto> ''lab'']
   \<and> Interface sensorInstance = ''temperature-sensor''
   \<and> (CallUpdate KindTwinInstance ''ktwin'' ''sensor-001'', None)
       \<in> set (newCalls baseCluster
                (world (createUpdateTwinInstance specReconciler sensorInstance sensor
                          baseCluster)))
   \<and> Labels (obj (createUpdateTwinInstance specReconciler sensorInstance sensor baseCluster))
       = [''ktwin/twin-interface'' \<mapsto> ''sensor-001'']"
  using C10_labels_replaced
    [of "CallUpdate KindTwinInterface ''ktwin'' ''temperature-sensor''"
        "CallUpdate KindTwinInstance ''ktwin'' ''sensor-001''"
        None plainCluster specReconciler plainSensor
        None baseCluster specReconciler sensorInstance sensor]
    plain_pass_calls sensorInstance_pass_calls scenario_names
  by simp

text \<open>
  Claim C8. An already-exists response to a create is never accumulated: no pass of
  either reconciler has it among its accumulated errors or returns it. It does not
  affect the outcome either: the accumulated errors, the returned error and the phase of
  a pass are the same whatever compute services and bindings the cluster already holds.
\<close>

theorem C8_already_exists_is_success:
  "Some AlreadyExists \<notin> set (resultErrors (TwinInterfaceReconcile r req c))
   \<and> retErr (TwinInterfaceReconcile r req c) \<noteq> Some AlreadyExists
   \<and> Some AlreadyExists \<notin> set (resultErrors (TwinInstanceReconcile r req c))
   \<and> retErr (TwinInstanceReconcile r req c) \<noteq> Some AlreadyExists
   \<and> resultErrors (createUpdateTwinInterface r ti (c\<lparr>kservices := S, bindings := B\<rparr>))
       = resultErrors (createUpdateTwinInterface r ti c)
   \<and> retErr (createUpdateTwinInterface r ti (c\<lparr>kservices := S, bindings := B\<rparr>))
       = retErr (createUpdateTwinInterface r ti c)
   \<and> Status (obj (createUpdateTwinInterface r ti (c\<lparr>kservices := S, bindings := B\<rparr>)))
       = Status (obj (createUpdateTwinInterface r ti c))
   \<and> resultErrors (createUpdateTwinInstance r inst ti (c\<lparr>bindings := B\<rparr>))
       = resultErrors (createUpdateTwinInstance r inst ti c)
   \<and> retErr (createUpdateTwinInstance r inst ti (c\<lparr>bindings := B\<rparr>))
       = retErr (createUpdateTwinInstance r inst ti c)
   \<and> InstanceStatus (obj (createUpdateTwinInstance r inst ti (c\<lparr>bindings := B\<rparr>)))
       = InstanceStatus (obj (createUpdateTwinInstance r inst ti c))"
  using interface_reconcile_not_AlreadyExists [of r req c]
    instance_reconcile_not_AlreadyExists [of r req c]
    interface_pass_ignores_existing instance_pass_ignores_existing
  by simp

lemma dispatcherExists_lookup:
  "getIn (faults dispatcherExistsCluster) KindTwinInstance (ReqNamespace instanceReq)
     (ReqName instanceReq) emptyTwinInstance (twinInstances dispatcherExistsCluster)
   = (None, sensorInstance)"
  "getIn (faults dispatcherExistsCluster) KindTwinInterface (Namespace sensorInstance)
     (Interface sensorInstance) emptyTwinInterface (twinInterfaces dispatcherExistsCluster)
   = (None, sensor)"
  by (simp_all add: dispatcherExistsCluster_def scenario_defs store_defs)

lemma dispatcherExists_pass:
  "newCalls dispatcherExistsCluster
     (world (TwinInstanceReconcile specReconciler instanceReq dispatcherExistsCluster))
     = [(CallGet KindTwinInstance ''ktwin'' ''sensor-001'', None),
        (CallGet KindTwinInterface ''ktwin'' ''temperature-sensor'', None),
        (CallCreate KindBinding ''ktwin'' ''sensor-001-mqtt-dispatcher'', Some AlreadyExists),
        (CallUpdate KindTwinInstance ''ktwin'' ''sensor-001'', None)]"
  "InstanceStatus (obj (TwinInstanceReconcile specReconciler instanceReq dispatcherExistsCluster))
     = TwinInstancePhaseRunning"
  "length (bindings (world (TwinInstanceReconcile specReconciler instanceReq
      dispatcherExistsCluster))) = 1"
proof -
  let ?c = "logCall (CallGet KindTwinInterface (Namespace sensorInstance)
                       (Interface sensorInstance)) None
              (logCall (CallGet KindTwinInstance (ReqNamespace instanceReq)
                          (ReqName instanceReq)) None dispatcherExistsCluster)"
  have e: "faultErrors (faults dispatcherExistsCluster)
             (GetMQQTDispatcherBindings specReconciler sensorInstance) = []"
    by (simp add: dispatcherExistsCluster_def scenario_defs createFault_def)
  have b: "bindingCalls (faults dispatcherExistsCluster)
             (GetMQQTDispatcherBindings specReconciler sensorInstance)
             (bindings dispatcherExistsCluster)
           = [(CallCreate KindBinding ''ktwin'' ''sensor-001-mqtt-dispatcher'',
               Some AlreadyExists)]"
    by (simp add: dispatcherExistsCluster_def scenario_defs store_defs)
  have a: "length (addBindings (faults dispatcherExistsCluster)
             (GetMQQTDispatcherBindings specReconciler sensorInstance)
             (bindings dispatcherExistsCluster)) = 1"
    by (simp add: dispatcherExistsCluster_def scenario_defs store_defs)
  have u: "fst (updateIn (faults dispatcherExistsCluster) KindTwinInstance
             (runningInstance sensorInstance) (twinInstances dispatcherExistsCluster)) = None"
    by (simp add: dispatcherExistsCluster_def scenario_defs store_defs runningInstance_def)
  have n: "Namespace sensorInstance = ''ktwin''" "Name sensorInstance = ''sensor-001''"
    "Interface sensorInstance = ''temperature-sensor''"
    "ReqNamespace instanceReq = ''ktwin''" "ReqName instanceReq = ''sensor-001''"
    by (simp_all add: sensorInstance_def instanceReq_def)
  show "newCalls dispatcherExistsCluster
     (world (TwinInstanceReconcile specReconciler instanceReq dispatcherExistsCluster))
     = [(CallGet KindTwinInstance ''ktwin'' ''sensor-001'', None),
        (CallGet KindTwinInterface ''ktwin'' ''temperature-sensor'', None),
        (CallCreate KindBinding ''ktwin'' ''sensor-001-mqtt-dispatcher'', Some AlreadyExists),
        (CallUpdate KindTwinInstance ''ktwin'' ''sensor-001'', None)]"
    by (simp add: TwinInstanceReconcile_found [OF dispatcherExists_lookup]
        createUpdateTwinInstance_calls e b u n newCalls_def)
  show "InstanceStatus (obj (TwinInstanceReconcile specReconciler instanceReq
          dispatcherExistsCluster)) = TwinInstancePhaseRunning"
    by (simp add: TwinInstanceReconcile_found [OF dispatcherExists_lookup]
        createUpdateTwinInstance_verdict e runningInstance_def)
  show "length (bindings (world (TwinInstanceReconcile specReconciler instanceReq
      dispatcherExistsCluster))) = 1"
    by (simp add: TwinInstanceReconcile_found [OF dispatcherExists_lookup]
        createUpdateTwinInstance_frame a)
qed

text \<open>
  In the scenario where the dispatch binding of \<open>sensor-001\<close> exists already, its
  create is answered already-exists and the Instance ends Running.
\<close>

theorem C8_already_exists_is_success_witness:
  "(CallCreate KindBinding ''ktwin'' ''sensor-001-mqtt-dispatcher'', Some AlreadyExists)
     \<in> set (newCalls dispatcherExistsCluster
              (world (TwinInstanceReconcile specReconciler instanceReq dispatcherExistsCluster)))
   \<and> Some AlreadyExists
       \<notin> set (resultErrors (TwinInstanceReconcile specReconciler instanceReq
                 dispatcherExistsCluster))
   \<and> retErr (TwinInstanceReconcile specReconciler instanceReq dispatcherExistsCluster)
       \<noteq> Some AlreadyExists
   \<and> InstanceStatus (obj (TwinInstanceReconcile specReconciler instanceReq
         dispatcherExistsCluster)) = TwinInstancePhaseRunning"
  using C8_already_exists_is_success
    [of specReconciler instanceReq dispatcherExistsCluster]
    dispatcherExists_pass
  by simp

section \<open>Reconciling twice\<close>

subsection \<open>Creating and updating again\<close>

lemma createIn_idem [simp]:
  "snd (createIn flt k x (snd (createIn flt k x xs))) = snd (createIn flt k x xs)"
  by (simp add: createIn_def sameKey_def split: option.splits)

lemma createIn_keeps: "list_ex p xs \<Longrightarrow> list_ex p (snd (createIn flt k x xs))"
  by (simp add: createIn_def split: option.splits)

lemma addBindings_keeps: "list_ex p B \<Longrightarrow> list_ex p (addBindings flt bs B)"
  by (induction bs arbitrary: B) (simp_all add: createIn_keeps)

lemma addBindings_settles:
  "b \<in> set bs \<Longrightarrow> createFault flt b = None \<Longrightarrow>
     list_ex (sameKey (Namespace b) (Name b)) (addBindings flt bs B)"
proof (induction bs arbitrary: B)
  case Nil
  then show ?case by simp
next
  case (Cons a bs)
  show ?case
  proof (cases "b = a")
    case True
    have "list_ex (sameKey (Namespace b) (Name b)) (snd (createIn flt KindBinding b B))"
      using Cons.prems(2) by (intro createIn_present) (simp add: createFault_def)
    then show ?thesis
      using True by (simp add: addBindings_keeps)
  next
    case False
    with Cons show ?thesis by simp
  qed
qed

lemma addBindings_settled:
  "(\<And>b. b \<in> set bs \<Longrightarrow> createFault flt b = None \<Longrightarrow>
      list_ex (sameKey (Namespace b) (Name b)) B) \<Longrightarrow> addBindings flt bs B = B"
proof (induction bs)
  case Nil
  show ?case by simp
next
  case (Cons a bs)
  have "snd (createIn flt KindBinding a B) = B"
    using Cons.prems [of a]
    by (auto simp add: createIn_def createFault_def split: option.splits)
  moreover have "addBindings flt bs B = B"
    using Cons.prems by (intro Cons.IH) simp_all
  ultimately show ?case
    by simp
qed

lemma addBindings_idem: "addBindings flt bs (addBindings flt bs B) = addBindings flt bs B"
  by (rule addBindings_settled) (rule addBindings_settles)

lemma replaceFirst_idem: "p y \<Longrightarrow> replaceFirst p y (replaceFirst p y xs) = replaceFirst p y xs"
  by (induction xs) auto

lemma list_ex_replaceFirst: "p y \<Longrightarrow> list_ex p (replaceFirst p y xs) = list_ex p xs"
  by (induction xs) auto

lemma updateIn_idem:
  "snd (updateIn flt k x (snd (updateIn flt k x xs))) = snd (updateIn flt k x xs)"
  by (simp add: updateIn_def replaceFirst_idem list_ex_replaceFirst sameKey_def
      split: option.splits)

lemma find_updateIn:
  "find (sameKey (Namespace x) (Name x)) (snd (updateIn flt k x xs)) =
     (if fst (updateIn flt k x xs) = None then Some x
      else find (sameKey (Namespace x) (Name x)) xs)"
  by (simp add: updateIn_def find_replaceFirst sameKey_def split: option.splits)

lemma getIn_found:
  "getIn flt k ns n into xs = (None, x) \<Longrightarrow>
     flt (CallGet k ns n) = None \<and> find (sameKey ns n) xs = Some x
     \<and> Namespace x = ns \<and> Name x = n"
  by (auto simp add: getIn_def sameKey_def find_Some_iff split: option.splits)

lemma relabelled_fields [simp]:
  "Name (ti\<lparr>Labels := l, Status := s\<rparr>) = Name ti"
  "Namespace (ti\<lparr>Labels := l, Status := s\<rparr>) = Namespace ti"
  "Service (ti\<lparr>Labels := l, Status := s\<rparr>) = Service ti"
  by simp_all

lemma second_pass_same:
  assumes g: "generatorsIgnoreStatusAndLabels r"
    and f: "faults d = faults c" "exchanges d = exchanges c" "queues d = queues c"
    and t: "triggers d = snd (createdTrigger r ti c)"
  shows "eventStoreQueueList (ti\<lparr>Labels := l, Status := s\<rparr>) d = eventStoreQueueList ti c"
    and "passReturnsEarly (ti\<lparr>Labels := l, Status := s\<rparr>) d = passReturnsEarly ti c"
    and "passErrors r (ti\<lparr>Labels := l, Status := s\<rparr>) d = passErrors r ti c"
    and "passBindings r (ti\<lparr>Labels := l, Status := s\<rparr>) d = passBindings r ti c"
proof -
  let ?ti = "ti\<lparr>Labels := l, Status := s\<rparr>"
  have gen: "GetService r ?ti = GetService r ti"
    "GetTwinInterfaceTrigger r ?ti = GetTwinInterfaceTrigger r ti"
    "GetRelationshipBrokerBindings r ?ti = GetRelationshipBrokerBindings r ti"
    "GetEventStoreBrokerBindings r ?ti = GetEventStoreBrokerBindings r ti"
    using g by (simp_all add: generatorsIgnoreStatusAndLabels_def)
  have lists: "eventStoreQueueList ?ti d = eventStoreQueueList ti c"
    "brokerExchangeList ?ti d = brokerExchangeList ti c"
    "interfaceQueueList ?ti d = interfaceQueueList ti c"
    using f by (simp_all add: eventStoreQueueList_def brokerExchangeList_def
        interfaceQueueList_def)
  have ct: "snd (createdTrigger r ?ti d) = snd (createdTrigger r ti c)"
    using f t by (simp add: createdTrigger_def gen)
  have ft: "fetchedTrigger r ?ti d = fetchedTrigger r ti c"
    using f ct by (simp add: fetchedTrigger_def gen)
  have se: "setupErrors r ?ti d = setupErrors r ti c"
    using f ft
    by (simp add: setupErrors_def createdService_def createdTrigger_def gen
        appendUnless_createIn)
  have bd: "bindingsDue r ?ti d = bindingsDue r ti c"
    by (simp add: bindingsDue_def lists ft gen)
  have le: "listErrors ?ti d = listErrors ti c"
    by (simp add: listErrors_def lists)
  show "eventStoreQueueList ?ti d = eventStoreQueueList ti c"
    by (rule lists)
  show "passReturnsEarly ?ti d = passReturnsEarly ti c"
    by (simp add: passReturnsEarly_def lists)
  show "passErrors r ?ti d = passErrors r ti c"
    using f by (simp add: passErrors_def se le bd)
  show "passBindings r ?ti d = passBindings r ti c"
    by (simp add: passBindings_def bd)
qed

lemma second_pass_plain:
  assumes "Service ti = None"
  shows "passReturnsEarly (ti\<lparr>Labels := l, Status := s\<rparr>) d = passReturnsEarly ti c"
    and "passErrors r (ti\<lparr>Labels := l, Status := s\<rparr>) d = passErrors r ti c"
    and "passBindings r (ti\<lparr>Labels := l, Status := s\<rparr>) d = passBindings r ti c"
  using assms by (simp_all add: passReturnsEarly_def passErrors_def passBindings_def)

lemma relabelled_self: "ti = ti\<lparr>Labels := Labels ti, Status := Status ti\<rparr>"
  by simp

lemma relabelled_running:
  "runningInterface ti = ti\<lparr>Labels := [''ktwin/twin-interface'' \<mapsto> Name ti],
                              Status := TwinInterfacePhaseRunning\<rparr>"
  by (simp add: runningInterface_def)

lemma running_running [simp]: "runningInterface (runningInterface ti) = runningInterface ti"
  by (simp add: runningInterface_def)

lemma running_relabelled_status [simp]:
  "Status (runningInterface ti) = TwinInterfacePhaseRunning"
  by (simp add: runningInterface_def)

text \<open>
  Claim C7. Running the Interface reconciler twice in a row on the same request, with
  nothing else changing the cluster in between, gives the same final status both times
  (the phase of the object of the pass, the returned error, the accumulated errors and
  the stored Interfaces) and creates no further Binding: the stored bindings after the
  second run are those after the first, so any selection of them has the same count.
  The generators, which are not among the sources, are taken not to depend on the
  labels and the phase that a pass writes.
\<close>

theorem C7_second_pass_changes_nothing:
  assumes g: "generatorsIgnoreStatusAndLabels r"
  shows "Status (obj (secondPass r req c)) = Status (obj (TwinInterfaceReconcile r req c))
    \<and> retErr (secondPass r req c) = retErr (TwinInterfaceReconcile r req c)
    \<and> resultErrors (secondPass r req c) = resultErrors (TwinInterfaceReconcile r req c)
    \<and> twinInterfaces (world (secondPass r req c))
        = twinInterfaces (world (TwinInterfaceReconcile r req c))
    \<and> bindings (world (secondPass r req c)) = bindings (world (TwinInterfaceReconcile r req c))
    \<and> length (filter P (bindings (world (secondPass r req c))))
        = length (filter P (bindings (world (TwinInterfaceReconcile r req c))))"
proof (cases rule: TwinInterfaceReconcile_cases [of c req])
  case (absent e)
  let ?c1 = "logCall (CallGet KindTwinInterface (ReqNamespace req) (ReqName req)) (Some e) c"
  have "fst (getIn (faults ?c1) KindTwinInterface (ReqNamespace req) (ReqName req)
          emptyTwinInterface (twinInterfaces ?c1)) = Some e"
    using absent by simp
  from TwinInterfaceReconcile_absent [OF this, of r] show ?thesis
    by (simp add: secondPass_def TwinInterfaceReconcile_absent [OF absent])
next
  case (found ti)
  note first = TwinInterfaceReconcile_summary [OF found, of r]
  let ?c1 = "world (TwinInterfaceReconcile r req c)"
  let ?U = "updateIn (faults c) KindTwinInterface (runningInterface ti) (twinInterfaces c)"
  let ?E = "passErrors r ti c"
  define ti2 where "ti2 = (if ?E = [] \<and> fst ?U = None then runningInterface ti else ti)"
  from getIn_found [OF found]
  have k: "faults c (CallGet KindTwinInterface (ReqNamespace req) (ReqName req)) = None"
    "find (sameKey (ReqNamespace req) (ReqName req)) (twinInterfaces c) = Some ti"
    "Namespace ti = ReqNamespace req" "Name ti = ReqName req"
    by simp_all
  have fu: "find (sameKey (ReqNamespace req) (ReqName req)) (snd ?U) =
              (if fst ?U = None then Some (runningInterface ti) else Some ti)"
    using find_updateIn [of "runningInterface ti" "faults c" KindTwinInterface "twinInterfaces c"] k
    by simp
  have lookup2: "getIn (faults ?c1) KindTwinInterface (ReqNamespace req) (ReqName req)
          emptyTwinInterface (twinInterfaces ?c1) = (None, ti2)"
    using k fu by (simp add: first getIn_def ti2_def)
  note second = TwinInterfaceReconcile_summary [OF lookup2, of r]
  obtain l s where rel: "ti2 = ti\<lparr>Labels := l, Status := s\<rparr>"
  proof (cases "?E = [] \<and> fst ?U = None")
    case True
    then have "ti2 = ti\<lparr>Labels := [''ktwin/twin-interface'' \<mapsto> Name ti],
                        Status := TwinInterfacePhaseRunning\<rparr>"
      by (simp add: ti2_def runningInterface_def)
    then show ?thesis by (rule that)
  next
    case False
    then have "ti2 = ti\<lparr>Labels := Labels ti, Status := Status ti\<rparr>"
      by (auto simp add: ti2_def)
    then show ?thesis by (rule that)
  qed
  have run2: "runningInterface ti2 = runningInterface ti"
    by (simp add: ti2_def)
  have key2: "Namespace ti2 = Namespace ti" "Name ti2 = Name ti" "Service ti2 = Service ti"
    by (simp_all add: rel)
  have es: "eventStoreQueueList ti2 ?c1 = eventStoreQueueList ti c"
    by (simp add: eventStoreQueueList_def first key2)
  have same: "passReturnsEarly ti2 ?c1 = passReturnsEarly ti c"
    "passErrors r ti2 ?c1 = ?E" "passBindings r ti2 ?c1 = passBindings r ti c"
  proof -
    show "passReturnsEarly ti2 ?c1 = passReturnsEarly ti c"
      by (simp add: passReturnsEarly_def es key2)
    show "passErrors r ti2 ?c1 = ?E"
    proof (cases "Service ti = None")
      case True
      then show ?thesis
        unfolding rel by (rule second_pass_plain)
    next
      case False
      then have "triggers ?c1 = snd (createdTrigger r ti c)"
        by (auto simp add: first)
      then show ?thesis
        unfolding rel by (intro second_pass_same g) (simp_all add: first)
    qed
    show "passBindings r ti2 ?c1 = passBindings r ti c"
    proof (cases "Service ti = None")
      case True
      then show ?thesis
        unfolding rel by (rule second_pass_plain)
    next
      case False
      then have "triggers ?c1 = snd (createdTrigger r ti c)"
        by (auto simp add: first)
      then show ?thesis
        unfolding rel by (intro second_pass_same g) (simp_all add: first)
    qed
  qed
  have early: "?E \<noteq> []" if "passReturnsEarly ti c"
    using that by (auto simp add: passReturnsEarly_def passErrors_def listErrors_def)
  have st: "Status (obj (secondPass r req c)) = Status (obj (TwinInterfaceReconcile r req c))"
  proof (cases "passReturnsEarly ti c")
    case True
    with early have "Status ti2 = Status ti"
      by (simp add: ti2_def)
    with True show ?thesis
      by (simp add: secondPass_def second first same)
  next
    case False
    then show ?thesis
      by (simp add: secondPass_def second first same run2)
  qed
  have tw: "twinInterfaces (world (secondPass r req c)) = twinInterfaces ?c1"
    by (simp add: secondPass_def second first same run2 updateIn_idem)
  have bi: "bindings (world (secondPass r req c)) = bindings ?c1"
    by (simp add: secondPass_def second first same addBindings_idem)
  have re: "resultErrors (secondPass r req c) = resultErrors (TwinInterfaceReconcile r req c)"
    "retErr (secondPass r req c) = retErr (TwinInterfaceReconcile r req c)"
    by (simp_all add: secondPass_def second first same es)
  show ?thesis
    using st tw bi re by simp
qed

lemma base_lookup:
  "getIn (faults baseCluster) KindTwinInterface (ReqNamespace sensorReq)
     (ReqName sensorReq) emptyTwinInterface (twinInterfaces baseCluster)
   = (None, sensor)"
  by (simp add: scenario_defs store_defs)

lemma base_pass:
  "\<not> passReturnsEarly sensor baseCluster"
  "passErrors specReconciler sensor baseCluster = []"
  "map Name (addBindings (faults baseCluster) (passBindings specReconciler sensor baseCluster)
     (bindings baseCluster)) =
     [''temperature-sensor-real'', ''temperature-sensor-virtual'',
      ''temperature-sensor-event-store'']"
  by (simp_all add: scenario_defs pass_defs store_defs)

lemma base_first_pass:
  "Status (obj (TwinInterfaceReconcile specReconciler sensorReq baseCluster))
     = TwinInterfacePhaseRunning"
  "map Name (bindings (world (TwinInterfaceReconcile specReconciler sensorReq baseCluster))) =
     [''temperature-sensor-real'', ''temperature-sensor-virtual'',
      ''temperature-sensor-event-store'']"
  by (simp_all add: TwinInterfaceReconcile_summary [OF base_lookup] base_pass)

lemma specReconciler_stable: "generatorsIgnoreStatusAndLabels specReconciler"
  by (simp add: generatorsIgnoreStatusAndLabels_def specReconciler_def)

theorem C7_second_pass_changes_nothing_witness:
  "generatorsIgnoreStatusAndLabels specReconciler
   \<and> Status (obj (TwinInterfaceReconcile specReconciler sensorReq baseCluster))
       = TwinInterfacePhaseRunning
   \<and> Status (obj (secondPass specReconciler sensorReq baseCluster)) = TwinInterfacePhaseRunning
   \<and> map Name (bindings (world (TwinInterfaceReconcile specReconciler sensorReq baseCluster))) =
       [''temperature-sensor-real'', ''temperature-sensor-virtual'',
        ''temperature-sensor-event-store'']
   \<and> map Name (bindings (world (secondPass specReconciler sensorReq baseCluster))) =
       [''temperature-sensor-real'', ''temperature-sensor-virtual'',
        ''temperature-sensor-event-store'']
   \<and> length (bindings (world (secondPass specReconciler sensorReq baseCluster))) = 3"
proof -
  have l: "length (bindings (world (TwinInterfaceReconcile specReconciler sensorReq
             baseCluster))) = 3"
    using arg_cong [OF base_first_pass(2), of length] by simp
  from C7_second_pass_changes_nothing [OF specReconciler_stable, of sensorReq baseCluster]
  have "Status (obj (secondPass specReconciler sensorReq baseCluster))
          = Status (obj (TwinInterfaceReconcile specReconciler sensorReq baseCluster))"
    and "bindings (world (secondPass specReconciler sensorReq baseCluster))
          = bindings (world (TwinInterfaceReconcile specReconciler sensorReq baseCluster))"
    by simp_all
  then show ?thesis
    using specReconciler_stable base_first_pass l by simp
qed

end
